theory Spec2Isabelle
  imports Main "HOL-Library.Sublist"
begin

section \<open>JavaScript values\<close>

text \<open>
  The batch job service (\<^verbatim>\<open>services/batchJobService.js\<close>) is dynamically typed: the payloads
  it reads from the providers are JSON documents. They are modelled by the datatype
  \<open>json\<close>; a JavaScript value that may be \<^verbatim>\<open>undefined\<close> is a \<open>json option\<close> with
  \<open>None\<close> for \<^verbatim>\<open>undefined\<close>. Numbers are integers (token counts, indices); fractional
  numbers are outside the model. A character is one code unit below 256. An object is
  the list of its own properties, the first binding of a key being the one read.
\<close>

datatype json =
    JNull
  | JBool bool
  | JNum int
  | JStr string
  | JArr "json list"
  | JObj "(string \<times> json) list"

text \<open>Truthiness, as \<^verbatim>\<open>if (v)\<close>, \<^verbatim>\<open>!v\<close>, \<^verbatim>\<open>a || b\<close> and \<^verbatim>\<open>a && b\<close> test it.\<close>

fun truthy :: "json option \<Rightarrow> bool" where
  "truthy None = False"
| "truthy (Some JNull) = False"
| "truthy (Some (JBool b)) = b"
| "truthy (Some (JNum n)) = (n \<noteq> 0)"
| "truthy (Some (JStr s)) = (s \<noteq> [])"
| "truthy (Some (JArr xs)) = True"
| "truthy (Some (JObj kvs)) = True"

definition js_or :: "json option \<Rightarrow> json option \<Rightarrow> json option" where
  "js_or a b = (if truthy a then a else b)"

text \<open>
  Optional chaining \<^verbatim>\<open>v?.k\<close>: a property of an object, \<^verbatim>\<open>undefined\<close> on
  \<^verbatim>\<open>undefined\<close>, \<^verbatim>\<open>null\<close> and on values that have no such property. None of the keys
  the service reads names a built-in property of a string, an array or a number.
\<close>

fun opt_prop :: "string \<Rightarrow> json option \<Rightarrow> json option" where
  "opt_prop k (Some (JObj kvs)) = map_of kvs k"
| "opt_prop k v = None"

text \<open>\<^verbatim>\<open>v?.[0]\<close>: the first element of an array, the first character of a string.\<close>

fun opt_first :: "json option \<Rightarrow> json option" where
  "opt_first (Some (JArr xs)) = (case xs of [] \<Rightarrow> None | x # _ \<Rightarrow> Some x)"
| "opt_first (Some (JStr s)) = (case s of [] \<Rightarrow> None | c # _ \<Rightarrow> Some (JStr [c]))"
| "opt_first (Some (JObj kvs)) = map_of kvs ''0''"
| "opt_first v = None"

fun opt_path :: "string list \<Rightarrow> json option \<Rightarrow> json option" where
  "opt_path [] v = v"
| "opt_path (k # ks) v = opt_path ks (opt_prop k v)"

text \<open>
  A plain property read \<^verbatim>\<open>v.k\<close> throws a TypeError on \<^verbatim>\<open>null\<close> and \<^verbatim>\<open>undefined\<close>. Errors
  are values: an error is its message (\<^verbatim>\<open>error.message\<close>), with the wording of V8.
\<close>

type_synonym err = string

definition nullish :: "json option \<Rightarrow> bool" where
  "nullish v = (v = None \<or> v = Some JNull)"

definition quoted :: "string \<Rightarrow> string" where
  "quoted s = [CHR 0x27] @ s @ [CHR 0x27]"

definition cannot_read :: "json option \<Rightarrow> string \<Rightarrow> err" where
  "cannot_read v k =
     ''Cannot read properties of '' @ (if v = None then ''undefined'' else ''null'') @
     '' (reading '' @ quoted k @ '')''"

definition get_prop :: "string \<Rightarrow> json option \<Rightarrow> err + json option" where
  "get_prop k v = (if nullish v then Inl (cannot_read v k) else Inr (opt_prop k v))"

subsection \<open>Strings\<close>

definition digit_char :: "nat \<Rightarrow> char" where
  "digit_char n = ''0123456789'' ! n"

fun show_nat :: "nat \<Rightarrow> string" where
  "show_nat n = (if n < 10 then [digit_char n] else show_nat (n div 10) @ [digit_char (n mod 10)])"

definition show_int :: "int \<Rightarrow> string" where
  "show_int i = (if i < 0 then ''-'' @ show_nat (nat (- i)) else show_nat (nat i))"

text \<open>\<^verbatim>\<open>Array.prototype.join\<close> on an array of strings.\<close>

fun js_join :: "string \<Rightarrow> string list \<Rightarrow> string" where
  "js_join sep [] = []"
| "js_join sep [x] = x"
| "js_join sep (x # y # ys) = x @ sep @ js_join sep (y # ys)"

text \<open>
  The conversion of a value to a string in a template literal \<^verbatim>\<open>`${v}`\<close>. An array
  joins its elements with commas, \<^verbatim>\<open>null\<close> elements giving the empty string.
\<close>

primrec to_string :: "json \<Rightarrow> string" where
  "to_string JNull = ''null''"
| "to_string (JBool b) = (if b then ''true'' else ''false'')"
| "to_string (JNum n) = show_int n"
| "to_string (JStr s) = s"
| "to_string (JArr xs) =
     js_join '','' (map (\<lambda>(x, s). if x = JNull then [] else s) (zip xs (map to_string xs)))"
| "to_string (JObj kvs) = ''[object Object]''"

definition template :: "json option \<Rightarrow> string" where
  "template v = (case v of None \<Rightarrow> ''undefined'' | Some j \<Rightarrow> to_string j)"

text \<open>
  \<^verbatim>\<open>String.prototype.split\<close> with a non-empty separator string: \<open>breakOn\<close> cuts at the
  leftmost occurrence of the separator.
\<close>

fun breakOn :: "string \<Rightarrow> string \<Rightarrow> (string \<times> string) option" where
  "breakOn sep [] = (if sep = [] then Some ([], []) else None)"
| "breakOn sep (c # cs) =
     (if prefix sep (c # cs) then Some ([], drop (length sep) (c # cs))
      else (case breakOn sep cs of None \<Rightarrow> None | Some (a, b) \<Rightarrow> Some (c # a, b)))"

lemma breakOn_shorter: "breakOn sep s = Some (a, b) \<Longrightarrow> sep \<noteq> [] \<Longrightarrow> length b < length s"
proof (induction s arbitrary: a b)
  case Nil
  then show ?case by simp
next
  case (Cons c cs)
  show ?case
  proof (cases "prefix sep (c # cs)")
    case True
    with Cons.prems show ?thesis by (cases sep) auto
  next
    case False
    with Cons.prems obtain a' where "breakOn sep cs = Some (a', b)"
      by (auto split: option.splits)
    from Cons.IH [OF this Cons.prems(2)] show ?thesis by simp
  qed
qed

function split_str :: "string \<Rightarrow> string \<Rightarrow> string list" where
  "split_str sep s =
     (if sep = [] then map (\<lambda>c. [c]) s
      else (case breakOn sep s of None \<Rightarrow> [s] | Some (a, b) \<Rightarrow> a # split_str sep b))"
  by pat_completeness auto
termination
  by (relation "measure (\<lambda>(sep, s). length s)") (auto dest: breakOn_shorter)

declare split_str.simps [simp del]

text \<open>
  \<^verbatim>\<open>String.prototype.trim\<close> strips white space and line terminators from both ends; below
  256 these are the code units 9 to 13, 32 and 160.
\<close>

definition is_ws :: "char \<Rightarrow> bool" where
  "is_ws c = (c \<in> set [CHR 0x09, CHR 0x0A, CHR 0x0B, CHR 0x0C, CHR 0x0D, CHR 0x20, CHR 0xA0])"

definition js_trim :: "string \<Rightarrow> string" where
  "js_trim s = rev (dropWhile is_ws (rev (dropWhile is_ws s)))"






text \<open>
  The length of a value, as \<^verbatim>\<open>v.length\<close> reads it, and the values a \<^verbatim>\<open>for ... of\<close> loop
  runs through (\<open>None\<close>: the value is not iterable and the loop throws a TypeError).
\<close>

fun js_length :: "json option \<Rightarrow> json option" where
  "js_length (Some (JArr xs)) = Some (JNum (int (length xs)))"
| "js_length (Some (JStr s)) = Some (JNum (int (length s)))"
| "js_length (Some (JObj kvs)) = map_of kvs ''length''"
| "js_length v = None"

fun js_iter :: "json option \<Rightarrow> json list option" where
  "js_iter (Some (JArr xs)) = Some xs"
| "js_iter (Some (JStr s)) = Some (map (\<lambda>c. JStr [c]) s)"
| "js_iter v = None"

text \<open>
  A number of JavaScript is a double. The numbers of the model are integers; the sum of
  two of them is the double nearest to the exact sum, the even one of two that are
  equally near, and an infinity from \<open>2 ^ 1024\<close> on. Below \<open>2 ^ 53\<close> every integer is a
  double and the sum is exact.
\<close>

function bit_length :: "int \<Rightarrow> nat" where
  "bit_length n = (if n \<le> 0 then 0 else Suc (bit_length (n div 2)))"
  by pat_completeness auto
termination
  by (relation "measure nat") auto

declare bit_length.simps [simp del]

definition nearest_double :: "int \<Rightarrow> int" where
  "nearest_double x =
     (let a = \<bar>x\<bar>;
          k = bit_length a - 53;
          q = a div 2 ^ k;
          r = a mod 2 ^ k;
          q' = (if 2 * r > 2 ^ k \<or> (2 * r = 2 ^ k \<and> odd q) then q + 1 else q)
      in sgn x * (q' * 2 ^ k))"

text \<open>
  Numbers as the running totals hold them: \<^verbatim>\<open>total += v\<close> is an addition of numbers, gives
  \<^verbatim>\<open>NaN\<close> when \<open>v\<close> is \<^verbatim>\<open>undefined\<close>, and concatenates strings when \<open>v\<close> is a string, an
  array or an object. \<open>Infinite True\<close> is \<^verbatim>\<open>Infinity\<close>, \<open>Infinite False\<close> is \<^verbatim>\<open>-Infinity\<close>.
\<close>

datatype acc = Num int | NaN | Infinite bool | Str string

fun acc_string :: "acc \<Rightarrow> string" where
  "acc_string (Num n) = show_int n"
| "acc_string NaN = ''NaN''"
| "acc_string (Infinite positive) = (if positive then ''Infinity'' else ''-Infinity'')"
| "acc_string (Str s) = s"

definition double_sum :: "int \<Rightarrow> int \<Rightarrow> acc" where
  "double_sum n m =
     (let d = nearest_double (n + m)
      in if \<bar>d\<bar> \<ge> 2 ^ 1024 then Infinite (0 < d) else Num d)"

fun js_add :: "acc \<Rightarrow> json option \<Rightarrow> acc" where
  "js_add a (Some (JStr s)) = Str (acc_string a @ s)"
| "js_add a (Some (JArr xs)) = Str (acc_string a @ to_string (JArr xs))"
| "js_add a (Some (JObj kvs)) = Str (acc_string a @ to_string (JObj kvs))"
| "js_add (Str s) v = Str (s @ template v)"
| "js_add NaN v = NaN"
| "js_add a None = NaN"
| "js_add (Infinite positive) v = Infinite positive"
| "js_add (Num n) (Some JNull) = Num n"
| "js_add (Num n) (Some (JBool b)) = double_sum n (if b then 1 else 0)"
| "js_add (Num n) (Some (JNum m)) = double_sum n m"

text \<open>
  A total inside an object handed to \<^verbatim>\<open>JSON.stringify\<close>, which prints \<^verbatim>\<open>NaN\<close> and the
  infinities as \<^verbatim>\<open>null\<close>.
\<close>

fun acc_json :: "acc \<Rightarrow> json" where
  "acc_json (Num n) = JNum n"
| "acc_json NaN = JNull"
| "acc_json (Infinite positive) = JNull"
| "acc_json (Str s) = JStr s"

text \<open>A traversal that stops at the first exception, as \<^verbatim>\<open>Array.prototype.map\<close> does.\<close>

fun map_err :: "('a \<Rightarrow> err + 'b) \<Rightarrow> 'a list \<Rightarrow> err + 'b list" where
  "map_err f [] = Inr []"
| "map_err f (x # xs) =
     (case f x of
        Inl e \<Rightarrow> Inl e
      | Inr y \<Rightarrow> (case map_err f xs of Inl e \<Rightarrow> Inl e | Inr ys \<Rightarrow> Inr (y # ys)))"

section \<open>Formatting the batch requests\<close>

text \<open>
  \<^verbatim>\<open>formatGeminiBatchRequests(rawPrompts, isSingleBatchChat, temperature, systemPrompt)\<close>.
  A request item carries its \<^verbatim>\<open>metadata.key\<close>, the \<^verbatim>\<open>contents\<close> (each with an optional role
  and the texts of its parts), the temperature and the optional system instruction. In
  a single chat the function returns one item, not an array of items. A missing
  \<open>rawPrompts\<close> makes \<^verbatim>\<open>rawPrompts.map\<close> throw.
\<close>

record gemini_content =
  role :: "string option"
  parts :: "string list"

record gemini_item =
  metadata_key :: string
  contents :: "gemini_content list"
  temperature :: "json option"
  systemInstruction :: "string option"

datatype gemini_requests = OneItem gemini_item | Items "gemini_item list"

definition request_key :: "nat \<Rightarrow> string" where
  "request_key index = ''request-'' @ show_nat (index + 1)"

definition formatGeminiBatchRequests ::
  "string list option \<Rightarrow> bool \<Rightarrow> json option \<Rightarrow> string option \<Rightarrow> err + gemini_requests" where
  "formatGeminiBatchRequests rawPrompts isSingleBatchChat temp systemPrompt =
     (case rawPrompts of
        None \<Rightarrow> Inl (cannot_read None ''map'')
      | Some ps \<Rightarrow>
          if isSingleBatchChat then
            (let localMessages = map (\<lambda>prompt. \<lparr>role = Some ''user'', parts = [prompt]\<rparr>) ps in
             if truthy (map_option JStr systemPrompt)
             then Inr (OneItem \<lparr>metadata_key = ''request-1'', contents = localMessages,
                         temperature = temp, systemInstruction = systemPrompt\<rparr>)
             else Inr (OneItem \<lparr>metadata_key = ''request-1'', contents = localMessages,
                         temperature = temp, systemInstruction = None\<rparr>))
          else if truthy (map_option JStr systemPrompt)
          then Inr (Items (map (\<lambda>(index, prompt).
                   \<lparr>metadata_key = request_key index,
                    contents = [\<lparr>role = None, parts = [prompt]\<rparr>],
                    temperature = temp, systemInstruction = systemPrompt\<rparr>) (enumerate 0 ps)))
          else Inr (Items (map (\<lambda>(index, prompt).
                   \<lparr>metadata_key = request_key index,
                    contents = [\<lparr>role = None, parts = [prompt]\<rparr>],
                    temperature = temp, systemInstruction = None\<rparr>) (enumerate 0 ps))))"

text \<open>
  \<^verbatim>\<open>formatClaudeBatchRequests(rawPrompts, isSingleBatchChat)\<close>; the model name and the token
  limit are the configuration constants \<^verbatim>\<open>ANTHROPIC_MODEL\<close> and \<^verbatim>\<open>ANTHROPIC_MAX_TOKENS\<close>.
\<close>

record claude_message =
  msg_role :: string
  msg_content :: string

record claude_item =
  custom_id :: string
  params_model :: string
  params_max_tokens :: int
  params_messages :: "claude_message list"

definition formatClaudeBatchRequests ::
  "string \<Rightarrow> int \<Rightarrow> string list option \<Rightarrow> bool \<Rightarrow> err + claude_item list" where
  "formatClaudeBatchRequests ANTHROPIC_MODEL ANTHROPIC_MAX_TOKENS rawPrompts isSingleBatchChat =
     (case rawPrompts of
        None \<Rightarrow> Inl (cannot_read None ''map'')
      | Some ps \<Rightarrow>
          if isSingleBatchChat then
            (let localMessages = map (\<lambda>prompt. \<lparr>msg_role = ''user'', msg_content = prompt\<rparr>) ps in
             Inr [\<lparr>custom_id = ''request-1'', params_model = ANTHROPIC_MODEL,
                   params_max_tokens = ANTHROPIC_MAX_TOKENS, params_messages = localMessages\<rparr>])
          else Inr (map (\<lambda>(index, prompt).
                 \<lparr>custom_id = request_key index, params_model = ANTHROPIC_MODEL,
                  params_max_tokens = ANTHROPIC_MAX_TOKENS,
                  params_messages = [\<lparr>msg_role = ''user'', msg_content = prompt\<rparr>]\<rparr>) (enumerate 0 ps)))"

section \<open>Parsing and rendering the results\<close>

text \<open>
  \<^verbatim>\<open>JSON.stringify\<close> and \<^verbatim>\<open>JSON.parse\<close> belong to the language, not to the repository:
  the functions below take them as the parameters \<open>JSON_stringify\<close> and \<open>JSON_parse\<close>
  (\<open>Inl\<close> is the SyntaxError of a text that is not JSON). \<^verbatim>\<open>JSON.stringify(undefined)\<close>
  is \<^verbatim>\<open>undefined\<close>, printed as such by a template literal.
\<close>

definition newline :: string where
  "newline = [CHR 0x0A]"

definition stringify_opt :: "(json \<Rightarrow> string) \<Rightarrow> json option \<Rightarrow> string" where
  "stringify_opt JSON_stringify v = (case v of None \<Rightarrow> ''undefined'' | Some j \<Rightarrow> JSON_stringify j)"

definition or_zero :: "json option \<Rightarrow> json option" where
  "or_zero v = js_or v (Some (JNum 0))"

subsection \<open>Inline responses of a Gemini operation\<close>

text \<open>
  \<^verbatim>\<open>lroInfo.response?.inlinedResponses?.inlinedResponses ||
  lroInfo.metadata?.output?.inlinedResponses?.inlinedResponses || []\<close>, for an \<open>lroInfo\<close> that
  is neither \<^verbatim>\<open>null\<close> nor \<^verbatim>\<open>undefined\<close>.
\<close>

definition inlinedResponses_of :: "json option \<Rightarrow> json option" where
  "inlinedResponses_of lroInfo =
     js_or (opt_path [''response'', ''inlinedResponses'', ''inlinedResponses''] lroInfo)
       (js_or (opt_path [''metadata'', ''output'', ''inlinedResponses'', ''inlinedResponses''] lroInfo)
          (Some (JArr [])))"

text \<open>
  The prompt a block of the rendering shows: in a single chat all prompts joined by
  \<^verbatim>\<open>__\<close>; otherwise the prompt at the item's index in the payload, or a placeholder when
  there is none there or it is empty.
\<close>

definition block_prompt :: "string list option \<Rightarrow> bool \<Rightarrow> nat \<Rightarrow> err + string" where
  "block_prompt originalPrompts isSingleBatchChat index =
     (if isSingleBatchChat then
        (case originalPrompts of
           None \<Rightarrow> Inl (cannot_read None ''join'')
         | Some ps \<Rightarrow> Inr (js_join ''__'' ps))
      else
        (case originalPrompts of
           None \<Rightarrow> Inr (''(Prompt '' @ show_nat (index + 1) @ '')'')
         | Some ps \<Rightarrow>
             if index < length ps \<and> ps ! index \<noteq> [] then Inr (ps ! index)
             else Inr (''(Prompt '' @ show_nat (index + 1) @ '')'')))"

definition responseContent_of :: "(json \<Rightarrow> string) \<Rightarrow> json \<Rightarrow> string" where
  "responseContent_of JSON_stringify item =
     (let text = opt_prop ''text'' (opt_first (opt_path [''content'', ''parts'']
                   (opt_first (opt_path [''response'', ''candidates''] (Some item)))))
      in if truthy text then template text
         else if truthy (opt_prop ''response'' (Some item))
         then stringify_opt JSON_stringify (opt_prop ''response'' (Some item))
         else ''[No response content]'')"

definition gemini_block ::
  "(json \<Rightarrow> string) \<Rightarrow> string list option \<Rightarrow> bool \<Rightarrow> nat \<times> json \<Rightarrow> err + string" where
  "gemini_block JSON_stringify originalPrompts isSingleBatchChat = (\<lambda>(index, item).
     (case block_prompt originalPrompts isSingleBatchChat index of
        Inl e \<Rightarrow> Inl e
      | Inr originalPrompt \<Rightarrow>
          if nullish (Some item) then Inl (cannot_read (Some item) ''metadata'')
          else
            (let metadataKey = opt_path [''metadata'', ''key''] (Some item);
                 errorMessage = opt_path [''error'', ''message''] (Some item)
             in Inr (''--- Request Key: '' @
                     template (js_or metadataKey
                       (Some (JStr (''(Index '' @ show_nat (index + 1) @ '')'')))) @
                     '' ---'' @ newline @
                     ''Prompt: '' @ originalPrompt @ newline @
                     ''Response: '' @ responseContent_of JSON_stringify item @
                     (if truthy errorMessage then newline @ ''Error: '' @ template errorMessage
                      else [])))))"

definition parseGeminiInlineResponses ::
  "(json \<Rightarrow> string) \<Rightarrow> json option \<Rightarrow> string list option \<Rightarrow> bool \<Rightarrow> err + string" where
  "parseGeminiInlineResponses JSON_stringify lroInfo originalPrompts isSingleBatchChat =
     (if nullish lroInfo then Inl (cannot_read lroInfo ''response'')
      else
        (let inlinedResponses = inlinedResponses_of lroInfo in
         if js_length inlinedResponses = Some (JNum 0)
         then Inr ''Gemini batch job SUCCEEDED, but no inline responses found.''
         else
           (case inlinedResponses of
              Some (JArr items) \<Rightarrow>
                (case map_err (gemini_block JSON_stringify originalPrompts isSingleBatchChat)
                        (enumerate 0 items) of
                   Inl e \<Rightarrow> Inl e
                 | Inr formatted \<Rightarrow> Inr (js_join (newline @ newline) formatted))
            | _ \<Rightarrow> Inl ''inlinedResponses.map is not a function'')))"

subsection \<open>Usage totals of a Gemini operation\<close>

record usage_totals =
  totalPromptTokenCount :: acc
  totalCandidatesTokenCount :: acc
  totalTotalTokenCount :: acc
  totalThoughtsTokenCount :: acc
  totalPromptDetailsTokenCount :: acc

definition zero_totals :: usage_totals where
  "zero_totals = \<lparr>totalPromptTokenCount = Num 0, totalCandidatesTokenCount = Num 0,
     totalTotalTokenCount = Num 0, totalThoughtsTokenCount = Num 0,
     totalPromptDetailsTokenCount = Num 0\<rparr>"

text \<open>
  What a job's \<^verbatim>\<open>usageData\<close> can hold: the message of an operation without inline
  responses, the object \<^verbatim>\<open>{usageMetadata: {promptTokenCount, candidatesTokenCount,
  totalTokenCount, promptTokensDetails: [{modality: "TEXT", tokenCount}],
  thoughtsTokenCount}}\<close> built from the five totals, or a parsed JSON value.
\<close>

datatype usageData = UsageText string | Aggregated usage_totals | UsageJson json

text \<open>
  The loop over \<^verbatim>\<open>promptTokensDetails\<close>. The flag tells that \<^verbatim>\<open>detail.tokenCount\<close> threw
  (a \<^verbatim>\<open>null\<close> detail); what was added before stays added.
\<close>

fun add_details :: "acc \<Rightarrow> json list \<Rightarrow> acc \<times> bool" where
  "add_details t [] = (t, False)"
| "add_details t (detail # ds) =
     (if detail = JNull then (t, True)
      else add_details (js_add t (or_zero (opt_prop ''tokenCount'' (Some detail)))) ds)"

definition add_details_of :: "usage_totals \<Rightarrow> json option \<Rightarrow> usage_totals \<times> bool" where
  "add_details_of t usageMetadata =
     (case js_iter (js_or (opt_prop ''promptTokensDetails'' usageMetadata) (Some (JArr []))) of
        None \<Rightarrow> (t, True)
      | Some promptDetailsList \<Rightarrow>
          (case add_details (totalPromptDetailsTokenCount t) promptDetailsList of
             (d, threw) \<Rightarrow> (t\<lparr>totalPromptDetailsTokenCount := d\<rparr>, threw)))"

definition gemini_add_usage :: "usage_totals \<Rightarrow> json option \<Rightarrow> usage_totals \<times> bool" where
  "gemini_add_usage t usageMetadata =
     add_details_of
       (t\<lparr>totalPromptTokenCount :=
            js_add (totalPromptTokenCount t) (or_zero (opt_prop ''promptTokenCount'' usageMetadata)),
          totalCandidatesTokenCount :=
            js_add (totalCandidatesTokenCount t) (or_zero (opt_prop ''candidatesTokenCount'' usageMetadata)),
          totalTotalTokenCount :=
            js_add (totalTotalTokenCount t) (or_zero (opt_prop ''totalTokenCount'' usageMetadata)),
          totalThoughtsTokenCount :=
            js_add (totalThoughtsTokenCount t) (or_zero (opt_prop ''thoughtsTokenCount'' usageMetadata))\<rparr>)
       usageMetadata"

definition entry_usageMetadata :: "json option \<Rightarrow> json option" where
  "entry_usageMetadata entry = js_or (opt_path [''response'', ''usageMetadata''] entry) (Some (JObj []))"

text \<open>
  \<^verbatim>\<open>parseGeminiUsageData(lroInfo, originalPrompts, isSingleBatchChat)\<close>; the function never
  reads \<open>originalPrompts\<close>, which the model leaves out. In a single chat
  only the first response is read, and an exception there is logged and the function
  returns \<^verbatim>\<open>undefined\<close>; otherwise an exception inside one entry is logged and the loop
  goes on.
\<close>

definition parseGeminiUsageData :: "json option \<Rightarrow> bool \<Rightarrow> err + usageData option" where
  "parseGeminiUsageData lroInfo isSingleBatchChat =
     (if nullish lroInfo then Inl (cannot_read lroInfo ''response'')
      else
        (let inlinedResponses = inlinedResponses_of lroInfo in
         if js_length inlinedResponses = Some (JNum 0)
         then Inr (Some (UsageText ''Gemini batch job SUCCEEDED, but no inline responses found.''))
         else if isSingleBatchChat then
           (case gemini_add_usage zero_totals (entry_usageMetadata (opt_first inlinedResponses)) of
              (t, threw) \<Rightarrow> if threw then Inr None else Inr (Some (Aggregated t)))
         else
           (case js_iter inlinedResponses of
              None \<Rightarrow> Inl ''inlinedResponses is not iterable''
            | Some entries \<Rightarrow>
                Inr (Some (Aggregated
                  (foldl (\<lambda>t entry. fst (gemini_add_usage t (entry_usageMetadata (Some entry))))
                     zero_totals entries))))))"

subsection \<open>Results of a Claude batch\<close>

record claude_totals =
  input_tokens_total :: acc
  cache_creation_input_tokens_total :: acc
  cache_read_input_tokens_total :: acc
  output_tokens_total :: acc

definition zero_claude_totals :: claude_totals where
  "zero_claude_totals = \<lparr>input_tokens_total = Num 0, cache_creation_input_tokens_total = Num 0,
     cache_read_input_tokens_total = Num 0, output_tokens_total = Num 0\<rparr>"

text \<open>The \<^verbatim>\<open>switch (resultType)\<close> of both branches.\<close>

definition claude_outcome :: "(json \<Rightarrow> string) \<Rightarrow> json option \<Rightarrow> json option \<Rightarrow> string" where
  "claude_outcome JSON_stringify result error =
     (let resultType = opt_prop ''type'' result in
      if resultType = Some (JStr ''succeeded'')
      then ''Response: '' @ template (opt_prop ''text'' (opt_first (opt_path [''message'', ''content''] result)))
      else if resultType = Some (JStr ''errored'')
      then ''Error: '' @ stringify_opt JSON_stringify (js_or error (opt_prop ''error'' result))
      else if resultType = Some (JStr ''expired'')
      then ''Expired: '' @ stringify_opt JSON_stringify result
      else ''Unknown: '' @ stringify_opt JSON_stringify result)"

text \<open>The four additions; none of them has a fallback for a missing field.\<close>

definition claude_add_usage :: "claude_totals \<Rightarrow> json option \<Rightarrow> claude_totals" where
  "claude_add_usage t result =
     t\<lparr>input_tokens_total :=
         js_add (input_tokens_total t) (opt_path [''message'', ''usage'', ''input_tokens''] result),
       cache_creation_input_tokens_total :=
         js_add (cache_creation_input_tokens_total t)
           (opt_path [''message'', ''usage'', ''cache_creation_input_tokens''] result),
       cache_read_input_tokens_total :=
         js_add (cache_read_input_tokens_total t)
           (opt_path [''message'', ''usage'', ''cache_read_input_tokens''] result),
       output_tokens_total :=
         js_add (output_tokens_total t) (opt_path [''message'', ''usage'', ''output_tokens''] result)\<rparr>"

text \<open>
  One line of the results in the loop of the branch for independent prompts. The state
  is the counter, the message so far and the totals; \<open>claude_block\<close> is the text the line
  adds, for the value of the counter after \<^verbatim>\<open>counter++\<close>. A line that is not JSON, or that
  parses to \<^verbatim>\<open>null\<close> (the destructuring throws), is logged and skipped with the counter
  unchanged; missing \<open>originalPrompts\<close> make \<^verbatim>\<open>originalPrompts[counter - 1]\<close> throw after
  the counter went up. An index beyond the prompts prints \<^verbatim>\<open>undefined\<close>.
\<close>

definition claude_block :: "(json \<Rightarrow> string) \<Rightarrow> string list \<Rightarrow> nat \<Rightarrow> json \<Rightarrow> string" where
  "claude_block JSON_stringify ps counter parsed =
     ''--- Request Key: '' @
     template (js_or (opt_prop ''custom_id'' (Some parsed))
                 (Some (JStr (''(Index '' @ show_nat counter @ '')'')))) @
     '' ---'' @ newline @
     ''Prompt: '' @ (if counter - 1 < length ps then ps ! (counter - 1) else ''undefined'') @ newline @
     claude_outcome JSON_stringify (opt_prop ''result'' (Some parsed)) (opt_prop ''error'' (Some parsed)) @
     newline @ newline"

definition claude_line ::
  "(json \<Rightarrow> string) \<Rightarrow> (string \<Rightarrow> err + json) \<Rightarrow> string list option \<Rightarrow>
   nat \<times> string \<times> claude_totals \<Rightarrow> string \<Rightarrow> nat \<times> string \<times> claude_totals" where
  "claude_line JSON_stringify JSON_parse originalPrompts = (\<lambda>(counter, returnMessage, t) line.
     (case JSON_parse line of
        Inl parseError \<Rightarrow> (counter, returnMessage, t)
      | Inr parsed \<Rightarrow>
          if parsed = JNull then (counter, returnMessage, t)
          else
            (case originalPrompts of
               None \<Rightarrow> (counter + 1, returnMessage, t)
             | Some ps \<Rightarrow>
                 (counter + 1,
                  returnMessage @ claude_block JSON_stringify ps (counter + 1) parsed,
                  claude_add_usage t (opt_prop ''result'' (Some parsed))))))"

text \<open>\<^verbatim>\<open>jsonlString.split('\n').filter(line => line.trim() !== '')\<close>.\<close>

definition claude_lines :: "string \<Rightarrow> string list" where
  "claude_lines s = filter (\<lambda>line. js_trim line \<noteq> []) (split_str newline s)"

text \<open>
  The body of the \<^verbatim>\<open>try\<close> of \<^verbatim>\<open>getClaudeJobResult\<close>, given what \<^verbatim>\<open>axios.get(resultsUrl)\<close>
  gave: an exception, or the data of the response (a string, or the object axios
  parsed a JSON body into).
\<close>

definition claude_results ::
  "(json \<Rightarrow> string) \<Rightarrow> (string \<Rightarrow> err + json) \<Rightarrow> err + json \<Rightarrow> string list option \<Rightarrow> bool \<Rightarrow>
   err + string \<times> claude_totals" where
  "claude_results JSON_stringify JSON_parse resultsResponse originalPrompts isSingleBatchChat =
     (case resultsResponse of
        Inl e \<Rightarrow> Inl e
      | Inr jsonlString \<Rightarrow>
          if isSingleBatchChat then
            (if jsonlString = JNull
             then Inl (''Cannot destructure property '' @ quoted ''custom_id'' @ '' of '' @
                       quoted ''jsonlString'' @ '' as it is null.'')
             else
               (let custom_id = opt_prop ''custom_id'' (Some jsonlString);
                    result = opt_prop ''result'' (Some jsonlString);
                    error = opt_prop ''error'' (Some jsonlString)
                in case originalPrompts of
                     None \<Rightarrow> Inl (cannot_read None ''join'')
                   | Some ps \<Rightarrow>
                       Inr (''--- Request Key: '' @
                            template (js_or custom_id (Some (JStr ''(Index 1)''))) @
                            '' ---'' @ newline @
                            ''Prompt: '' @ js_join ''__'' ps @ newline @
                            claude_outcome JSON_stringify result error @
                            newline @ newline,
                            claude_add_usage zero_claude_totals result)))
          else
            (case jsonlString of
               JStr s \<Rightarrow>
                 (case foldl (claude_line JSON_stringify JSON_parse originalPrompts)
                         (0, [], zero_claude_totals) (claude_lines s) of
                    (counter, returnMessage, t) \<Rightarrow> Inr (returnMessage, t))
             | _ \<Rightarrow> Inl ''jsonlString.split is not a function''))"

definition usageObj :: "claude_totals \<Rightarrow> json" where
  "usageObj t = JObj
     [(''input_tokens'', acc_json (input_tokens_total t)),
      (''cache_creation_input_tokens'', acc_json (cache_creation_input_tokens_total t)),
      (''cache_read_input_tokens'', acc_json (cache_read_input_tokens_total t)),
      (''output_tokens'', acc_json (output_tokens_total t))]"

definition getClaudeJobResult ::
  "(json \<Rightarrow> string) \<Rightarrow> (string \<Rightarrow> err + json) \<Rightarrow> err + json \<Rightarrow> string list option \<Rightarrow> bool \<Rightarrow>
   string" where
  "getClaudeJobResult JSON_stringify JSON_parse resultsResponse originalPrompts isSingleBatchChat =
     (case claude_results JSON_stringify JSON_parse resultsResponse originalPrompts
             isSingleBatchChat of
        Inl e \<Rightarrow> ''Error fetching Claude batch results: '' @ e
      | Inr (returnMessage, t) \<Rightarrow> returnMessage @ ''_USAGE_'' @ JSON_stringify (usageObj t))"

subsection \<open>Line-delimited results of a file batch\<close>

definition error_entry :: "string \<Rightarrow> json" where
  "error_entry line =
     JObj [(''error'', JStr ''JSON parsing error on result line''), (''rawLine'', JStr line)]"

text \<open>
  \<^verbatim>\<open>parseJsonlResults(jsonlString)\<close>: the callback of \<^verbatim>\<open>map\<close> gives \<^verbatim>\<open>null\<close> for an empty
  line, and the \<^verbatim>\<open>filter\<close> drops every \<^verbatim>\<open>null\<close>. Data that is not a string has no
  \<^verbatim>\<open>trim\<close>.
\<close>

definition parseJsonlResults :: "(string \<Rightarrow> err + json) \<Rightarrow> json \<Rightarrow> err + json list" where
  "parseJsonlResults JSON_parse jsonlString =
     (case jsonlString of
        JStr s \<Rightarrow>
          Inr (filter (\<lambda>item. item \<noteq> JNull)
                 (map (\<lambda>line.
                         if line \<noteq> [] then
                           (case JSON_parse line of
                              Inr v \<Rightarrow> v
                            | Inl parseError \<Rightarrow> error_entry line)
                         else JNull)
                    (split_str newline (js_trim s))))
      | _ \<Rightarrow> Inl ''jsonlString.trim is not a function'')"

text \<open>
  \<^verbatim>\<open>parseJsonlUsageData(jsonlString)\<close>: the usage of a line is its
  \<^verbatim>\<open>response.usageMetadata\<close> or its \<^verbatim>\<open>response.body.usage\<close>.
\<close>

definition jsonl_add_usage :: "usage_totals \<Rightarrow> json option \<Rightarrow> usage_totals \<times> bool" where
  "jsonl_add_usage t usageMetadata =
     add_details_of
       (t\<lparr>totalPromptTokenCount :=
            js_add (totalPromptTokenCount t)
              (js_or (opt_prop ''promptTokenCount'' usageMetadata)
                 (or_zero (opt_prop ''prompt_tokens'' usageMetadata))),
          totalCandidatesTokenCount :=
            js_add (totalCandidatesTokenCount t) (or_zero (opt_prop ''candidatesTokenCount'' usageMetadata)),
          totalTotalTokenCount :=
            js_add (totalTotalTokenCount t)
              (js_or (opt_prop ''totalTokenCount'' usageMetadata)
                 (or_zero (opt_prop ''total_tokens'' usageMetadata))),
          totalThoughtsTokenCount :=
            js_add (totalThoughtsTokenCount t)
              (js_or (opt_prop ''thoughtsTokenCount'' usageMetadata)
                 (or_zero (opt_path [''completion_tokens_details'', ''reasoning_tokens''] usageMetadata)))\<rparr>)
       usageMetadata"

definition jsonl_line_usage :: "(string \<Rightarrow> err + json) \<Rightarrow> usage_totals \<Rightarrow> string \<Rightarrow> usage_totals" where
  "jsonl_line_usage JSON_parse t line =
     (if line \<noteq> [] then
        (case JSON_parse line of
           Inl parseError \<Rightarrow> t
         | Inr obj \<Rightarrow>
             fst (jsonl_add_usage t
                    (js_or (opt_path [''response'', ''usageMetadata''] (Some obj))
                       (opt_path [''response'', ''body'', ''usage''] (Some obj)))))
      else t)"

definition parseJsonlUsageData :: "(string \<Rightarrow> err + json) \<Rightarrow> json \<Rightarrow> err + usage_totals" where
  "parseJsonlUsageData JSON_parse jsonlString =
     (case jsonlString of
        JStr s \<Rightarrow> Inr (foldl (jsonl_line_usage JSON_parse) zero_totals (split_str newline (js_trim s)))
      | _ \<Rightarrow> Inl ''jsonlString.trim is not a function'')"

subsection \<open>Request counts of a Claude batch\<close>

text \<open>\<^verbatim>\<open>getNonZeroStatus(modelInfo)\<close> of \<^verbatim>\<open>utils/batchHelpers.js\<close>.\<close>

definition count_part :: "string \<Rightarrow> string \<Rightarrow> json option \<Rightarrow> string" where
  "count_part label k modelInfo =
     (if truthy (opt_prop k modelInfo) then label @ '' : '' @ template (opt_prop k modelInfo) @ '' ''
      else [])"

definition getNonZeroStatus :: "json option \<Rightarrow> err + string" where
  "getNonZeroStatus modelInfo =
     (if nullish modelInfo then Inl (cannot_read modelInfo ''canceled'')
      else Inr (js_trim
        (count_part ''Canceled'' ''canceled'' modelInfo @
         count_part ''Errored'' ''errored'' modelInfo @
         count_part ''Expired'' ''expired'' modelInfo @
         count_part ''Processing'' ''processing'' modelInfo @
         count_part ''Succeeded'' ''succeeded'' modelInfo)))"

section \<open>The job store and the providers\<close>

text \<open>
  A job record of the in-memory store \<^verbatim>\<open>jobs\<close>. The status is a JSON value, since one
  branch stores what the provider sent as its state; \<open>None\<close> is \<^verbatim>\<open>null\<close> in the fields
  that start as \<^verbatim>\<open>null\<close>, and a \<open>usageData\<close> never assigned. Dates are numbers.
\<close>

record job =
  model :: string
  submit_method :: string
  prompts :: "string list option"
  status :: json
  fullName :: "string option"
  llmJobId :: "string option"
  result :: "string option"
  createdAt :: nat
  lastChecked :: nat
  successData :: "json option"
  usageData :: "usageData option"

text \<open>
  The calls to the providers: the two batch creations with the requests they carry, and
  the reads of a URL. Headers (the API keys) are left out.
\<close>

datatype request =
    CreateGeminiBatch string gemini_requests
  | CreateClaudeBatch "claude_item list"
  | Get "json option"

text \<open>
  What the service takes from its surroundings: the configuration, the network
  (\<open>axios\<close> answers a call with an exception or with the data of the response) and the
  two functions of the language.
\<close>

record env =
  GOOGLE_API_KEY :: "string option"
  ANTHROPIC_API_KEY :: "string option"
  GOOGLE_GEMINI_MODEL :: string
  ANTHROPIC_MODEL :: string
  ANTHROPIC_MAX_TOKENS :: int
  axios :: "request \<Rightarrow> err + json"
  stringify :: "json \<Rightarrow> string"
  parse :: "string \<Rightarrow> err + json"

definition BASE_GEMINI_API_URL :: string where
  "BASE_GEMINI_API_URL = ''https://generativelanguage.googleapis.com/v1beta/''"

text \<open>
  The state of the module: the store, the counter of \<^verbatim>\<open>generateInternalJobId\<close>, and the
  calls sent to the providers so far (a record kept by the model, not by the code).
\<close>

record store =
  jobs :: "string \<Rightarrow> job option"
  nextInternalJobId :: nat
  calls :: "request list"

definition generateInternalJobId :: "store \<Rightarrow> string \<times> store" where
  "generateInternalJobId st =
     (''job-'' @ show_nat (nextInternalJobId st), st\<lparr>nextInternalJobId := nextInternalJobId st + 1\<rparr>)"

definition issue :: "request \<Rightarrow> store \<Rightarrow> store" where
  "issue r st = st\<lparr>calls := calls st @ [r]\<rparr>"

definition set_job :: "string \<Rightarrow> job \<Rightarrow> store \<Rightarrow> store" where
  "set_job internalJobId j st = st\<lparr>jobs := (jobs st)(internalJobId \<mapsto> j)\<rparr>"

definition truthy_str :: "string option \<Rightarrow> bool" where
  "truthy_str s = truthy (map_option JStr s)"

definition template_str :: "string option \<Rightarrow> string" where
  "template_str s = (case s of None \<Rightarrow> ''null'' | Some t \<Rightarrow> t)"

text \<open>\<^verbatim>\<open>Array.prototype.pop\<close> and an index read, \<open>None\<close> being \<^verbatim>\<open>undefined\<close>.\<close>

definition js_pop :: "'a list \<Rightarrow> 'a option" where
  "js_pop xs = (case rev xs of [] \<Rightarrow> None | x # _ \<Rightarrow> Some x)"

fun js_nth :: "'a list \<Rightarrow> nat \<Rightarrow> 'a option" where
  "js_nth [] n = None"
| "js_nth (x # xs) 0 = Some x"
| "js_nth (x # xs) (Suc n) = js_nth xs n"

text \<open>\<^verbatim>\<open>v == 'text'\<close>: a string equal to the text, or an array whose string form is it.\<close>

fun loose_eq_str :: "json option \<Rightarrow> string \<Rightarrow> bool" where
  "loose_eq_str (Some (JStr t)) s = (t = s)"
| "loose_eq_str (Some (JArr xs)) s = (to_string (JArr xs) = s)"
| "loose_eq_str v s = False"

section \<open>Submitting a batch\<close>

text \<open>An entry of the object \<^verbatim>\<open>submitBatchJob\<close> returns, with the job id first.\<close>

datatype submission =
    Accepted string "string option"
  | Rejected string string

fun submission_status :: "submission \<Rightarrow> string" where
  "submission_status (Accepted internalJobId providerJobId) = ''PENDING''"
| "submission_status (Rejected internalJobId message) = ''FAILED''"

definition new_job :: "string \<Rightarrow> string \<Rightarrow> string list option \<Rightarrow> nat \<Rightarrow> job" where
  "new_job modelId method ps now =
     \<lparr>model = modelId, submit_method = method, prompts = ps, status = JStr ''PENDING'',
      fullName = None, llmJobId = None, result = None, createdAt = now, lastChecked = now,
      successData = None, usageData = None\<rparr>"

text \<open>
  The part of the \<^verbatim>\<open>try\<close> before the call: the request to send, with the key under which
  the response names the provider's job, or the exception thrown before any call.
\<close>

definition submit_request ::
  "env \<Rightarrow> string list option \<Rightarrow> bool \<Rightarrow> json option \<Rightarrow> string option \<Rightarrow> string \<Rightarrow> string \<Rightarrow>
   err + request \<times> string" where
  "submit_request e ps isSingleBatchChat temp systemPrompt internalJobId modelId =
     (if modelId = ''gemini'' then
        (if \<not> truthy_str (GOOGLE_API_KEY e) then Inl ''Gemini API key not configured.''
         else
           (case formatGeminiBatchRequests ps isSingleBatchChat temp systemPrompt of
              Inl er \<Rightarrow> Inl er
            | Inr geminiRequests \<Rightarrow>
                Inr (CreateGeminiBatch (''my-batch-requests-'' @ internalJobId) geminiRequests,
                     ''name'')))
      else if modelId = ''claude'' then
        (if \<not> truthy_str (ANTHROPIC_API_KEY e) then Inl ''Anthropic API key not configured.''
         else
           (case formatClaudeBatchRequests (ANTHROPIC_MODEL e) (ANTHROPIC_MAX_TOKENS e) ps
                   isSingleBatchChat of
              Inl er \<Rightarrow> Inl er
            | Inr claudeRequests \<Rightarrow> Inr (CreateClaudeBatch claudeRequests, ''id'')))
      else Inl (''Model '' @ modelId @ '' not supported for batch text input.''))"

text \<open>
  \<^verbatim>\<open>const llmJobname = response.data.name; const llmJobId = llmJobname.split('/').pop()\<close>
  (\<^verbatim>\<open>data.id\<close> for Claude).
\<close>

definition llm_job_name :: "string \<Rightarrow> json \<Rightarrow> err + string \<times> string option" where
  "llm_job_name k data =
     (case get_prop k (Some data) of
        Inl er \<Rightarrow> Inl er
      | Inr llmJobname \<Rightarrow>
          (case llmJobname of
             Some (JStr s) \<Rightarrow> Inr (s, js_pop (split_str ''/'' s))
           | None \<Rightarrow> Inl (cannot_read None ''split'')
           | Some JNull \<Rightarrow> Inl (cannot_read (Some JNull) ''split'')
           | _ \<Rightarrow> Inl ''llmJobname.split is not a function''))"

definition update_job :: "string \<Rightarrow> (job \<Rightarrow> job) \<Rightarrow> store \<Rightarrow> store" where
  "update_job internalJobId f st =
     (case jobs st internalJobId of None \<Rightarrow> st | Some j \<Rightarrow> set_job internalJobId (f j) st)"

definition submit_failed ::
  "string \<Rightarrow> string \<Rightarrow> err \<Rightarrow> store \<times> (string \<rightharpoonup> submission) \<Rightarrow> store \<times> (string \<rightharpoonup> submission)" where
  "submit_failed internalJobId modelId er = (\<lambda>(st, submittedJobs).
     (update_job internalJobId
        (\<lambda>j. j\<lparr>status := JStr ''FAILED'', result := Some (''Failed to submit job: '' @ er)\<rparr>) st,
      submittedJobs(modelId \<mapsto> Rejected internalJobId er)))"

text \<open>
  The callback of \<^verbatim>\<open>models.map\<close> for one model. The callbacks touch their own job only,
  and the entry of their own model in \<^verbatim>\<open>submittedJobs\<close>: the model runs them one after
  the other in the order of \<open>models\<close>, which is the order in which the code creates the
  jobs and sends the calls.
\<close>

definition submit_one ::
  "env \<Rightarrow> nat \<Rightarrow> string \<Rightarrow> string list option \<Rightarrow> bool \<Rightarrow> json option \<Rightarrow> string option \<Rightarrow>
   store \<times> (string \<rightharpoonup> submission) \<Rightarrow> string \<Rightarrow> store \<times> (string \<rightharpoonup> submission)" where
  "submit_one e now method ps isSingleBatchChat temp systemPrompt = (\<lambda>(st, submittedJobs) modelId.
     (let (internalJobId, st1) = generateInternalJobId st;
          st2 = set_job internalJobId (new_job modelId method ps now) st1
      in case submit_request e ps isSingleBatchChat temp systemPrompt internalJobId modelId of
           Inl er \<Rightarrow> submit_failed internalJobId modelId er (st2, submittedJobs)
         | Inr (req, k) \<Rightarrow>
             (let st3 = issue req st2 in
              case axios e req of
                Inl er \<Rightarrow> submit_failed internalJobId modelId er (st3, submittedJobs)
              | Inr data \<Rightarrow>
                  (case llm_job_name k data of
                     Inl er \<Rightarrow> submit_failed internalJobId modelId er (st3, submittedJobs)
                   | Inr (llmJobname, llmJobId') \<Rightarrow>
                       (update_job internalJobId
                          (\<lambda>j. j\<lparr>fullName := Some llmJobname, llmJobId := llmJobId'\<rparr>) st3,
                        submittedJobs(modelId \<mapsto> Accepted internalJobId llmJobId'))))))"

text \<open>
  \<^verbatim>\<open>submitBatchJob(method, prompts, models, isSingleBatchChat, temperature, systemPrompt)\<close>.
  A missing list is \<open>None\<close>. The result is the exception thrown to the caller or the
  object \<^verbatim>\<open>submittedJobs\<close>, and the state after the call.
\<close>

definition submitBatchJob ::
  "env \<Rightarrow> nat \<Rightarrow> string \<Rightarrow> string list option \<Rightarrow> string list option \<Rightarrow> bool \<Rightarrow> json option \<Rightarrow>
   string option \<Rightarrow> store \<Rightarrow> (err + (string \<rightharpoonup> submission)) \<times> store" where
  "submitBatchJob e now method ps models isSingleBatchChat temp systemPrompt st =
     (case models of
        None \<Rightarrow> (Inl ''At least one LLM must be selected.'', st)
      | Some ms \<Rightarrow>
          if ms = [] then (Inl ''At least one LLM must be selected.'', st)
          else if method = ''text_input'' \<and> (ps = None \<or> ps = Some [])
          then (Inl ''Prompts are required for text input method.'', st)
          else
            (case foldl (submit_one e now method ps isSingleBatchChat temp systemPrompt)
                    (st, Map.empty) ms of
               (st', submittedJobs) \<Rightarrow> (Inr submittedJobs, st')))"

section \<open>Checking the status\<close>

text \<open>
  The entries of the object \<^verbatim>\<open>statusUpdates\<close>: \<^verbatim>\<open>{status: 'NOT_FOUND', message}\<close>,
  \<^verbatim>\<open>{status, result, lastChecked}\<close> of a job, the same with \<^verbatim>\<open>usageData\<close>, and the entry of
  the file path, whose three fields come from the provider. The second and third reply
  are the objects the file paths return instead: \<^verbatim>\<open>{state, fullResponse}\<close> and
  \<^verbatim>\<open>{results, usageData}\<close>.
\<close>

datatype entry =
    NotFound
  | JobStatus json "string option" nat
  | JobResult json "string option" nat "usageData option"
  | FileStatus "json option" "json option" "json option"

datatype reply =
    Updates "string \<rightharpoonup> entry"
  | GeminiState "json option" json
  | FileData "json list" usage_totals

text \<open>
  The callbacks of \<^verbatim>\<open>internalJobIds.map\<close> are asynchronous: each runs up to its first
  \<^verbatim>\<open>await\<close> while \<^verbatim>\<open>map\<close> goes through the ids, and the rest of each runs when its response
  is there. The model has the two phases: the first goes through the ids, answers what
  needs no call and sends the calls; the second, in the same order, takes the response
  of each call sent. A call awaited is the job id, what it is for, and the request.
\<close>

datatype awaited = PollGemini | PollClaude | RereadGemini | DownloadClaude | RereadClaude

type_synonym pending = "string \<times> awaited \<times> request"

definition check_failed :: "err \<Rightarrow> job \<Rightarrow> job" where
  "check_failed er j = j\<lparr>status := JStr ''FAILED'', result := Some (''Failed to check status: '' @ er)\<rparr>"

definition conclude_status ::
  "nat \<Rightarrow> string \<Rightarrow> job \<Rightarrow> store \<times> (string \<rightharpoonup> entry) \<Rightarrow> store \<times> (string \<rightharpoonup> entry)" where
  "conclude_status now internalJobId j = (\<lambda>(st, statusUpdates).
     (let j' = j\<lparr>lastChecked := now\<rparr> in
      (set_job internalJobId j' st,
       statusUpdates(internalJobId \<mapsto> JobStatus (status j') (result j') (lastChecked j')))))"

definition pop_text :: "string \<Rightarrow> string" where
  "pop_text l = (case js_pop (split_str ''/'' l) of None \<Rightarrow> ''undefined'' | Some x \<Rightarrow> x)"

definition claude_batch_url :: "job \<Rightarrow> string" where
  "claude_batch_url j = ''https://api.anthropic.com/v1/messages/batches/'' @ template_str (llmJobId j)"

definition gemini_operation_url :: "job \<Rightarrow> string" where
  "gemini_operation_url j = BASE_GEMINI_API_URL @ template_str (fullName j)"

definition status_start ::
  "nat \<Rightarrow> store \<times> (string \<rightharpoonup> entry) \<times> pending list \<Rightarrow> string \<Rightarrow>
   store \<times> (string \<rightharpoonup> entry) \<times> pending list" where
  "status_start now = (\<lambda>(st, statusUpdates, waiting) internalJobId.
     (case jobs st internalJobId of
        None \<Rightarrow> (st, statusUpdates(internalJobId \<mapsto> NotFound), waiting)
      | Some j \<Rightarrow>
          if status j = JStr ''COMPLETED'' \<or> status j = JStr ''FAILED''
          then (st, statusUpdates(internalJobId \<mapsto> JobStatus (status j) (result j) (lastChecked j)),
                waiting)
          else if model j = ''gemini'' then
            (if \<not> truthy_str (llmJobId j) then
               (case conclude_status now internalJobId
                       (check_failed (''Gemini job '' @ internalJobId @ '' has no LLM job ID.'') j)
                       (st, statusUpdates) of
                  (st', statusUpdates') \<Rightarrow> (st', statusUpdates', waiting))
             else
               (let req = Get (Some (JStr (gemini_operation_url j))) in
                (issue req st, statusUpdates, waiting @ [(internalJobId, PollGemini, req)])))
          else if model j = ''claude'' then
            (if \<not> truthy_str (llmJobId j) then
               (case conclude_status now internalJobId
                       (check_failed (''Claude job '' @ internalJobId @ '' has no LLM job ID.'') j)
                       (st, statusUpdates) of
                  (st', statusUpdates') \<Rightarrow> (st', statusUpdates', waiting))
             else
               (let req = Get (Some (JStr (claude_batch_url j))) in
                (issue req st, statusUpdates, waiting @ [(internalJobId, PollClaude, req)])))
          else
            (case conclude_status now internalJobId j (st, statusUpdates) of
               (st', statusUpdates') \<Rightarrow> (st', statusUpdates', waiting))))"

text \<open>
  The rest of the \<^verbatim>\<open>try\<close> for a Gemini job, from the data of the response. An exception
  leaves behind at most assignments to \<^verbatim>\<open>status\<close> and \<^verbatim>\<open>result\<close>, which the \<^verbatim>\<open>catch\<close>
  overwrites: the functions give the exception or the job as assigned.
\<close>

definition gemini_status :: "json \<Rightarrow> job \<Rightarrow> err + job" where
  "gemini_status lroInfo j =
     (case get_prop ''done'' (Some lroInfo) of
        Inl er \<Rightarrow> Inl er
      | Inr done \<Rightarrow>
          (let error = opt_prop ''error'' (Some lroInfo);
               currentLLMStatus =
                 (if truthy done then ''SUCCEEDED'' else if truthy error then ''FAILED'' else ''RUNNING'')
           in if truthy done then
                (if truthy error then
                   Inr (j\<lparr>status := JStr ''FAILED'',
                          result := Some (''Gemini job failed: '' @ template (opt_prop ''message'' error))\<rparr>)
                 else
                   (case llmJobId j of
                      None \<Rightarrow> Inl (cannot_read (Some JNull) ''split'')
                    | Some l \<Rightarrow>
                        Inr (j\<lparr>status := JStr ''COMPLETED'',
                               result := Some (''Gemini batch job '' @ pop_text l @
                                               '' SUCCEEDED. Results are available.''),
                               successData := Some lroInfo\<rparr>)))
              else Inr (j\<lparr>status := JStr currentLLMStatus\<rparr>)))"

definition claude_status :: "json \<Rightarrow> job \<Rightarrow> err + job" where
  "claude_status lroInfo j =
     (case get_prop ''ended_at'' (Some lroInfo) of
        Inl er \<Rightarrow> Inl er
      | Inr ended_at \<Rightarrow>
          if truthy ended_at \<and> loose_eq_str (opt_prop ''processing_status'' (Some lroInfo)) ''ended''
          then
            (case llmJobId j of
               None \<Rightarrow> Inl (cannot_read (Some JNull) ''split'')
             | Some l \<Rightarrow>
                 (case getNonZeroStatus (opt_prop ''request_counts'' (Some lroInfo)) of
                    Inl er \<Rightarrow> Inl er
                  | Inr counts \<Rightarrow>
                      Inr (j\<lparr>result := Some (''Claude batch job '' @ pop_text l @ '' status. '' @ counts),
                             successData := opt_prop ''results_url'' (Some lroInfo),
                             status := JStr ''COMPLETED''\<rparr>)))
          else
            Inr (j\<lparr>status := JStr ''RUNNING'',
                   result := Some (''Model '' @ model j @ '' is still running, please check later.'')\<rparr>))"

definition caught :: "err + job \<Rightarrow> job \<Rightarrow> job" where
  "caught outcome j = (case outcome of Inl er \<Rightarrow> check_failed er j | Inr j' \<Rightarrow> j')"

definition status_finish ::
  "env \<Rightarrow> nat \<Rightarrow> store \<times> (string \<rightharpoonup> entry) \<Rightarrow> pending \<Rightarrow> store \<times> (string \<rightharpoonup> entry)" where
  "status_finish e now = (\<lambda>(st, statusUpdates) (internalJobId, what, req).
     (case jobs st internalJobId of
        None \<Rightarrow> (st, statusUpdates)
      | Some j \<Rightarrow>
          conclude_status now internalJobId
            (caught
               (case axios e req of
                  Inl er \<Rightarrow> Inl er
                | Inr data \<Rightarrow> if what = PollGemini then gemini_status data j else claude_status data j)
               j)
            (st, statusUpdates)))"

text \<open>
  \<^verbatim>\<open>getBatchJobStatus(internalJobIds, isFileUpload, modelId)\<close>. The result is the exception
  thrown to the caller or the reply, and the state after the call.
\<close>

definition getBatchJobStatus ::
  "env \<Rightarrow> nat \<Rightarrow> string list option \<Rightarrow> bool \<Rightarrow> string \<Rightarrow> store \<Rightarrow> (err + reply) \<times> store" where
  "getBatchJobStatus e now internalJobIds isFileUpload modelId st =
     (case internalJobIds of
        None \<Rightarrow> (Inl ''No job IDs provided.'', st)
      | Some [] \<Rightarrow> (Inl ''No job IDs provided.'', st)
      | Some (operationName # others) \<Rightarrow>
          if isFileUpload then
            (if modelId = ''gemini'' then
               (if operationName = [] then (Inl ''operationName is required.'', st)
                else
                  (let req = Get (Some (JStr (BASE_GEMINI_API_URL @ operationName)));
                       st1 = issue req st
                   in case axios e req of
                        Inl er \<Rightarrow> (Inl er, st1)
                      | Inr data \<Rightarrow>
                          (case get_prop ''metadata'' (Some data) of
                             Inl er \<Rightarrow> (Inl er, st1)
                           | Inr metadata \<Rightarrow> (Inr (GeminiState (opt_prop ''state'' metadata) data), st1))))
             else if modelId = ''openai'' then
               (if operationName = [] then (Inl ''operationName is required.'', st)
                else
                  (let req = Get (Some (JStr (''https://api.openai.com/v1/batches/'' @ operationName)));
                       st1 = issue req st
                   in case axios e req of
                        Inl er \<Rightarrow> (Inl er, st1)
                      | Inr data \<Rightarrow>
                          (case get_prop ''status'' (Some data) of
                             Inl er \<Rightarrow> (Inl er, st1)
                           | Inr status' \<Rightarrow>
                               (let output_file_id = opt_prop ''output_file_id'' (Some data);
                                    completed_at = opt_prop ''completed_at'' (Some data)
                                in (Inr (Updates [operationName \<mapsto>
                                           FileStatus status' output_file_id completed_at]),
                                    update_job operationName (\<lambda>j. j\<lparr>successData := output_file_id\<rparr>) st1)))))
             else (Inl (''Model '' @ modelId @ '' not supported for file upload batch status check.''), st))
          else
            (case foldl (status_start now) (st, Map.empty, []) (operationName # others) of
               (st1, statusUpdates1, waiting) \<Rightarrow>
                 (case foldl (status_finish e now) (st1, statusUpdates1) waiting of
                    (st2, statusUpdates2) \<Rightarrow> (Inr (Updates statusUpdates2), st2))))"

section \<open>Fetching the results\<close>

definition conclude_result ::
  "nat \<Rightarrow> string \<Rightarrow> job \<Rightarrow> store \<times> (string \<rightharpoonup> entry) \<Rightarrow> store \<times> (string \<rightharpoonup> entry)" where
  "conclude_result now internalJobId j = (\<lambda>(st, statusUpdates).
     (let j' = j\<lparr>lastChecked := now\<rparr> in
      (set_job internalJobId j' st,
       statusUpdates(internalJobId \<mapsto>
         JobResult (status j') (result j') (lastChecked j') (usageData j')))))"

text \<open>
  \<^verbatim>\<open>job.result = parseGeminiInlineResponses(payload, ...); job.usageData =
  parseGeminiUsageData(job.successData, ...)\<close>: both branches of a Gemini job read the
  usage from \<^verbatim>\<open>job.successData\<close>.
\<close>

definition gemini_store :: "env \<Rightarrow> bool \<Rightarrow> json option \<Rightarrow> job \<Rightarrow> err + job" where
  "gemini_store e isSingleBatchChat payload j =
     (case parseGeminiInlineResponses (stringify e) payload (prompts j) isSingleBatchChat of
        Inl er \<Rightarrow> Inl er
      | Inr formattedResults \<Rightarrow>
          (case parseGeminiUsageData (successData j) isSingleBatchChat of
             Inl er \<Rightarrow> Inl er
           | Inr usage \<Rightarrow> Inr (j\<lparr>result := Some formattedResults, usageData := usage\<rparr>)))"

text \<open>
  \<^verbatim>\<open>job.result = allData.split('_USAGE_')[0]; job.usageData =
  JSON.parse(allData.split('_USAGE_')[1])\<close>.
\<close>

definition claude_store :: "env \<Rightarrow> string \<Rightarrow> job \<Rightarrow> err + job" where
  "claude_store e allData j =
     (let pieces = split_str ''_USAGE_'' allData in
      case parse e (case js_nth pieces 1 of None \<Rightarrow> ''undefined'' | Some t \<Rightarrow> t) of
        Inl er \<Rightarrow> Inl er
      | Inr usage \<Rightarrow> Inr (j\<lparr>result := js_nth pieces 0, usageData := Some (UsageJson usage)\<rparr>))"

definition or_else :: "json option \<Rightarrow> json \<Rightarrow> json" where
  "or_else v d = (case v of None \<Rightarrow> d | Some x \<Rightarrow> if truthy v then x else d)"

definition result_start ::
  "env \<Rightarrow> nat \<Rightarrow> bool \<Rightarrow> store \<times> (string \<rightharpoonup> entry) \<times> pending list \<Rightarrow> string \<Rightarrow>
   store \<times> (string \<rightharpoonup> entry) \<times> pending list" where
  "result_start e now isSingleBatchChat = (\<lambda>(st, statusUpdates, waiting) internalJobId.
     (case jobs st internalJobId of
        None \<Rightarrow> (st, statusUpdates(internalJobId \<mapsto> NotFound), waiting)
      | Some j \<Rightarrow>
          if status j \<noteq> JStr ''COMPLETED'' then (st, statusUpdates, waiting)
          else if model j = ''gemini'' then
            (if \<not> truthy_str (llmJobId j) then
               (case conclude_result now internalJobId
                       (check_failed (''Gemini job '' @ internalJobId @ '' has no LLM job ID.'') j)
                       (st, statusUpdates) of
                  (st', statusUpdates') \<Rightarrow> (st', statusUpdates', waiting))
             else if truthy (successData j) then
               (case conclude_result now internalJobId
                       (caught (gemini_store e isSingleBatchChat (successData j) j) j)
                       (st, statusUpdates) of
                  (st', statusUpdates') \<Rightarrow> (st', statusUpdates', waiting))
             else
               (let req = Get (Some (JStr (gemini_operation_url j))) in
                (issue req st, statusUpdates, waiting @ [(internalJobId, RereadGemini, req)])))
          else if model j = ''claude'' then
            (if \<not> truthy_str (llmJobId j) then
               (case conclude_result now internalJobId
                       (check_failed (''Claude job '' @ internalJobId @ '' has no LLM job ID.'') j)
                       (st, statusUpdates) of
                  (st', statusUpdates') \<Rightarrow> (st', statusUpdates', waiting))
             else if truthy (successData j) then
               (let req = Get (successData j) in
                (issue req st, statusUpdates, waiting @ [(internalJobId, DownloadClaude, req)]))
             else
               (let req = Get (Some (JStr (claude_batch_url j))) in
                (issue req st, statusUpdates, waiting @ [(internalJobId, RereadClaude, req)])))
          else
            (case conclude_result now internalJobId j (st, statusUpdates) of
               (st', statusUpdates') \<Rightarrow> (st', statusUpdates', waiting))))"

text \<open>The branch that reads the Gemini operation again, from the data of the response.\<close>

definition gemini_reread :: "env \<Rightarrow> bool \<Rightarrow> json \<Rightarrow> job \<Rightarrow> err + job" where
  "gemini_reread e isSingleBatchChat lroInfo j =
     (case get_prop ''done'' (Some lroInfo) of
        Inl er \<Rightarrow> Inl er
      | Inr done \<Rightarrow>
          (let error = opt_prop ''error'' (Some lroInfo) in
           if truthy done \<and> \<not> truthy error then
             gemini_store e isSingleBatchChat (Some lroInfo) (j\<lparr>status := JStr ''COMPLETED''\<rparr>)
           else if truthy done \<and> truthy error then
             Inr (j\<lparr>status := JStr ''FAILED'',
                    result := Some (''Gemini job failed: '' @ template (opt_prop ''message'' error))\<rparr>)
           else
             (let state = or_else (opt_path [''metadata'', ''state''] (Some lroInfo))
                            (or_else (opt_prop ''state'' (Some lroInfo)) (JStr ''RUNNING''))
              in Inr (j\<lparr>status := state,
                        result := Some (''Gemini job is '' @ to_string state @
                                        ''. Results are not yet available.'')\<rparr>))))"

text \<open>
  The branch that reads the Claude batch again; when the batch has ended it sends a
  second call, for the results. It gives the state with that call recorded.
\<close>

definition claude_reread :: "env \<Rightarrow> bool \<Rightarrow> json \<Rightarrow> job \<Rightarrow> store \<Rightarrow> (err + job) \<times> store" where
  "claude_reread e isSingleBatchChat lroInfo j st =
     (case get_prop ''ended_at'' (Some lroInfo) of
        Inl er \<Rightarrow> (Inl er, st)
      | Inr ended_at \<Rightarrow>
          if truthy ended_at \<and> loose_eq_str (opt_prop ''processing_status'' (Some lroInfo)) ''ended''
          then
            (let results_url = opt_prop ''results_url'' (Some lroInfo);
                 req = Get results_url;
                 allData = getClaudeJobResult (stringify e) (parse e) (axios e req) (prompts j)
                             isSingleBatchChat
             in (case claude_store e allData j of
                   Inl er \<Rightarrow> Inl er
                 | Inr j' \<Rightarrow> Inr (j'\<lparr>successData := results_url, status := JStr ''COMPLETED''\<rparr>),
                 issue req st))
          else
            (Inr (j\<lparr>status := JStr ''PENDING'',
                    result := Some (''Model '' @ model j @ '' is still running, please check later.'')\<rparr>),
             st))"

definition result_finish ::
  "env \<Rightarrow> nat \<Rightarrow> bool \<Rightarrow> store \<times> (string \<rightharpoonup> entry) \<Rightarrow> pending \<Rightarrow> store \<times> (string \<rightharpoonup> entry)" where
  "result_finish e now isSingleBatchChat = (\<lambda>(st, statusUpdates) (internalJobId, what, req).
     (case jobs st internalJobId of
        None \<Rightarrow> (st, statusUpdates)
      | Some j \<Rightarrow>
          if what = DownloadClaude then
            conclude_result now internalJobId
              (caught (claude_store e
                         (getClaudeJobResult (stringify e) (parse e) (axios e req) (prompts j)
                            isSingleBatchChat) j) j)
              (st, statusUpdates)
          else
            (case axios e req of
               Inl er \<Rightarrow> conclude_result now internalJobId (check_failed er j) (st, statusUpdates)
             | Inr lroInfo \<Rightarrow>
                 if what = RereadGemini then
                   conclude_result now internalJobId
                     (caught (gemini_reread e isSingleBatchChat lroInfo j) j) (st, statusUpdates)
                 else
                   (case claude_reread e isSingleBatchChat lroInfo j st of
                      (outcome, st') \<Rightarrow>
                        conclude_result now internalJobId (caught outcome j) (st', statusUpdates)))))"

text \<open>The two file paths: the download is parsed twice, for the results and the usage.\<close>

definition file_data :: "env \<Rightarrow> json \<Rightarrow> err + reply" where
  "file_data e data =
     (case parseJsonlResults (parse e) data of
        Inl er \<Rightarrow> Inl er
      | Inr results \<Rightarrow>
          (case parseJsonlUsageData (parse e) data of
             Inl er \<Rightarrow> Inl er
           | Inr usage \<Rightarrow> Inr (FileData results usage)))"

definition gemini_file_result :: "env \<Rightarrow> string \<Rightarrow> store \<Rightarrow> (err + reply) \<times> store" where
  "gemini_file_result e operationName st =
     (if operationName = [] then (Inl ''operationName is required.'', st)
      else
        (let req = Get (Some (JStr (BASE_GEMINI_API_URL @ operationName)));
             st1 = issue req st
         in case axios e req of
              Inl er \<Rightarrow> (Inl er, st1)
            | Inr data \<Rightarrow>
                (case get_prop ''metadata'' (Some data) of
                   Inl er \<Rightarrow> (Inl er, st1)
                 | Inr metadata \<Rightarrow>
                     (let batchState = opt_prop ''state'' metadata;
                          outputFileName =
                            js_or (opt_path [''outputConfig'', ''fileName''] metadata)
                              (js_or (opt_path [''output'', ''responsesFile''] metadata)
                                 (opt_path [''response'', ''responsesFile''] (Some data)))
                      in if batchState \<noteq> Some (JStr ''BATCH_STATE_COMPLETED'') \<and>
                            batchState \<noteq> Some (JStr ''BATCH_STATE_SUCCEEDED'')
                         then (Inl (''Batch is not completed yet. Current state: '' @ template batchState),
                               st1)
                         else if \<not> truthy outputFileName
                         then (Inl ''Batch completed, but no output file name found in its metadata.'',
                               st1)
                         else
                           (let req2 = Get (Some (JStr
                                  (''https://generativelanguage.googleapis.com/download/v1beta/'' @
                                   template outputFileName @ '':download?alt=media'')));
                                st2 = issue req2 st1
                            in case axios e req2 of
                                 Inl er \<Rightarrow> (Inl er, st2)
                               | Inr text \<Rightarrow> (file_data e text, st2))))))"

definition openai_file_result :: "env \<Rightarrow> string \<Rightarrow> store \<Rightarrow> (err + reply) \<times> store" where
  "openai_file_result e operationName st =
     (case jobs st operationName of
        None \<Rightarrow> (Inl ''Job not found or output file ID missing.'', st)
      | Some j \<Rightarrow>
          if \<not> truthy (successData j) then (Inl ''Job not found or output file ID missing.'', st)
          else
            (let req = Get (Some (JStr (''https://api.openai.com/v1/files/'' @
                              template (successData j) @ ''/content'')));
                 st1 = issue req st
             in case axios e req of
                  Inl er \<Rightarrow> (Inl er, st1)
                | Inr text \<Rightarrow> (file_data e text, st1)))"

text \<open>\<^verbatim>\<open>getBatchJobResult(internalJobIds, isSingleBatchChat, isFileUpload, modelId)\<close>.\<close>

definition getBatchJobResult ::
  "env \<Rightarrow> nat \<Rightarrow> string list option \<Rightarrow> bool \<Rightarrow> bool \<Rightarrow> string \<Rightarrow> store \<Rightarrow> (err + reply) \<times> store" where
  "getBatchJobResult e now internalJobIds isSingleBatchChat isFileUpload modelId st =
     (case internalJobIds of
        None \<Rightarrow> (Inl ''No job IDs provided.'', st)
      | Some [] \<Rightarrow> (Inl ''No job IDs provided.'', st)
      | Some (operationName # others) \<Rightarrow>
          if isFileUpload then
            (if modelId = ''gemini'' then gemini_file_result e operationName st
             else if modelId = ''openai'' then openai_file_result e operationName st
             else (Inl (''Model '' @ modelId @
                        '' not supported for file upload batch result retrieval.''), st))
          else
            (case foldl (result_start e now isSingleBatchChat) (st, Map.empty, [])
                    (operationName # others) of
               (st1, statusUpdates1, waiting) \<Rightarrow>
                 (case foldl (result_finish e now isSingleBatchChat) (st1, statusUpdates1) waiting of
                    (st2, statusUpdates2) \<Rightarrow> (Inr (Updates statusUpdates2), st2))))"

section \<open>The status shown by the page\<close>


section \<open>Sample data\<close>

text \<open>
  Concrete surroundings for the closed statements below. \<open>json_text\<close> prints a value the
  way \<^verbatim>\<open>JSON.stringify\<close> does; \<open>sample_parse\<close> reads the few texts the examples use the
  way \<^verbatim>\<open>JSON.parse\<close> does, and rejects the others it is given there, none of which is
  JSON (the message of the SyntaxError is that of V8 for \<^verbatim>\<open>undefined\<close>, abridged otherwise); \<open>sample_axios\<close> is a network in which the creation of a Gemini batch succeeds,
  that of a Claude batch is refused, and a few URLs answer.
\<close>

definition hex_char :: "nat \<Rightarrow> char" where
  "hex_char n = ''0123456789abcdef'' ! n"

definition escape_char :: "char \<Rightarrow> string" where
  "escape_char c =
     (if c = CHR 0x22 then [CHR 0x5C, CHR 0x22]
      else if c = CHR 0x5C then [CHR 0x5C, CHR 0x5C]
      else if c = CHR 0x08 then [CHR 0x5C, CHR ''b'']
      else if c = CHR 0x0C then [CHR 0x5C, CHR ''f'']
      else if c = CHR 0x0A then [CHR 0x5C, CHR ''n'']
      else if c = CHR 0x0D then [CHR 0x5C, CHR ''r'']
      else if c = CHR 0x09 then [CHR 0x5C, CHR ''t'']
      else if (of_char c :: nat) < 32
      then [CHR 0x5C, CHR ''u'', CHR ''0'', CHR ''0'', hex_char (of_char c div 16),
            hex_char (of_char c mod 16)]
      else [c])"

definition json_quote :: "string \<Rightarrow> string" where
  "json_quote s = [CHR 0x22] @ concat (map escape_char s) @ [CHR 0x22]"

primrec json_text :: "json \<Rightarrow> string" where
  "json_text JNull = ''null''"
| "json_text (JBool b) = (if b then ''true'' else ''false'')"
| "json_text (JNum n) = show_int n"
| "json_text (JStr s) = json_quote s"
| "json_text (JArr xs) = ''['' @ js_join '','' (map json_text xs) @ '']''"
| "json_text (JObj kvs) =
     ''{'' @ js_join '','' (map (\<lambda>(k, t). json_quote k @ '':'' @ t) (map (map_prod id json_text) kvs)) @ ''}''"

definition succeeded_line :: "string \<Rightarrow> string \<Rightarrow> json" where
  "succeeded_line k answer =
     JObj [(''custom_id'', JStr k),
           (''result'', JObj [(''type'', JStr ''succeeded''),
              (''message'', JObj [(''content'', JArr [JObj [(''type'', JStr ''text''), (''text'', JStr answer)]]),
                 (''usage'', JObj [(''input_tokens'', JNum 10), (''cache_creation_input_tokens'', JNum 0),
                    (''cache_read_input_tokens'', JNum 0), (''output_tokens'', JNum 5)])])])]"

definition sample_parse :: "string \<Rightarrow> err + json" where
  "sample_parse s =
     (if s = ''null'' then Inr JNull
      else if s = ''{}'' then Inr (JObj [])
      else if s = json_text (succeeded_line ''request-1'' ''one'') then Inr (succeeded_line ''request-1'' ''one'')
      else if s = json_text (succeeded_line ''request-2'' ''two'') then Inr (succeeded_line ''request-2'' ''two'')
      else if s = ''undefined'' then Inl (json_quote ''undefined'' @ '' is not valid JSON'')
      else Inl ''Unexpected token'')"



definition sample_ended_batch :: json where
  "sample_ended_batch = JObj [(''id'', JStr ''msgbatch_01''), (''processing_status'', JStr ''ended''),
     (''ended_at'', JStr ''2025-01-01T00:00:00Z''),
     (''request_counts'', JObj [(''processing'', JNum 0), (''succeeded'', JNum 2), (''errored'', JNum 0),
        (''canceled'', JNum 0), (''expired'', JNum 0)]),
     (''results_url'', JStr ''https://api.anthropic.com/v1/messages/batches/msgbatch_01/results'')]"

fun sample_axios :: "request \<Rightarrow> err + json" where
  "sample_axios (CreateGeminiBatch display_name geminiRequests) = Inr (JObj [(''name'', JStr ''batches/abc123'')])"
| "sample_axios (CreateClaudeBatch claudeRequests) = Inl ''Request failed with status code 401''"
| "sample_axios (Get url) =
     (if url = Some (JStr ''https://api.openai.com/v1/batches/batch_1'')
      then Inr (JObj [(''status'', JStr ''in_progress''), (''output_file_id'', JNull), (''completed_at'', JNull)])
      else if url = Some (JStr ''https://api.anthropic.com/v1/messages/batches/msgbatch_01'')
      then Inr sample_ended_batch
      else Inl ''Network Error'')"

definition sample_env :: env where
  "sample_env = \<lparr>GOOGLE_API_KEY = Some ''g-key'', ANTHROPIC_API_KEY = Some ''a-key'',
     GOOGLE_GEMINI_MODEL = ''gemini-2.5-pro'', ANTHROPIC_MODEL = ''claude-3-haiku-20240307'',
     ANTHROPIC_MAX_TOKENS = 1024, axios = sample_axios, stringify = json_text, parse = sample_parse\<rparr>"

definition empty_store :: store where
  "empty_store = \<lparr>jobs = Map.empty, nextInternalJobId = 1, calls = []\<rparr>"





text \<open>The terminal states of a job.\<close>

definition terminal :: "job \<Rightarrow> bool" where
  "terminal j = (status j = JStr ''COMPLETED'' \<or> status j = JStr ''FAILED'')"






definition inline_lro :: "json list \<Rightarrow> json" where
  "inline_lro items = JObj [(''done'', JBool True),
     (''response'', JObj [(''inlinedResponses'', JObj [(''inlinedResponses'', JArr items)])])]"

definition sample_line1 :: string where
  "sample_line1 = json_text (succeeded_line ''request-1'' ''one'')"

definition sample_line2 :: string where
  "sample_line2 = json_text (succeeded_line ''request-2'' ''two'')"

section \<open>Sums of token counts\<close>

text \<open>
  What an item contributes to a total. A count is read from a usage object as a number
  that is not negative; \<open>count_ok\<close> holds of a field that is absent or a count, and
  \<open>count_of\<close> is its value, zero when absent. Where the code reads one of two names
  (\<^verbatim>\<open>a || b || 0\<close>), the first that is not zero counts. A total below \<open>2 ^ 53\<close> is held
  exactly.
\<close>

definition count_ok :: "json option \<Rightarrow> bool" where
  "count_ok v = (case v of None \<Rightarrow> True | Some (JNum n) \<Rightarrow> 0 \<le> n | Some other \<Rightarrow> False)"

definition count_of :: "json option \<Rightarrow> int" where
  "count_of v = (case v of Some (JNum n) \<Rightarrow> n | _ \<Rightarrow> 0)"

definition exact_total :: "int \<Rightarrow> bool" where
  "exact_total n = (n < 2 ^ 53)"

definition count_either :: "json option \<Rightarrow> json option \<Rightarrow> int" where
  "count_either v w = (if count_of v \<noteq> 0 then count_of v else count_of w)"

text \<open>The list \<^verbatim>\<open>promptTokensDetails\<close> of a usage object and the sum of its \<^verbatim>\<open>tokenCount\<close>s.\<close>

definition details_ok :: "json option \<Rightarrow> bool" where
  "details_ok usageMetadata =
     (case opt_prop ''promptTokensDetails'' usageMetadata of
        None \<Rightarrow> True
      | Some (JArr ds) \<Rightarrow> list_all (\<lambda>d. d \<noteq> JNull \<and> count_ok (opt_prop ''tokenCount'' (Some d))) ds
      | Some other \<Rightarrow> False)"

definition details_sum :: "json option \<Rightarrow> int" where
  "details_sum usageMetadata =
     (case opt_prop ''promptTokensDetails'' usageMetadata of
        Some (JArr ds) \<Rightarrow> (\<Sum>d\<leftarrow>ds. count_of (opt_prop ''tokenCount'' (Some d)))
      | _ \<Rightarrow> 0)"

text \<open>Totals that are numbers.\<close>

definition num_totals :: "int \<Rightarrow> int \<Rightarrow> int \<Rightarrow> int \<Rightarrow> int \<Rightarrow> usage_totals" where
  "num_totals p c t th d = \<lparr>totalPromptTokenCount = Num p, totalCandidatesTokenCount = Num c,
     totalTotalTokenCount = Num t, totalThoughtsTokenCount = Num th,
     totalPromptDetailsTokenCount = Num d\<rparr>"

text \<open>The fields read from the usage of an inline response, and of a line of a results file.\<close>

definition gemini_usage_ok :: "json option \<Rightarrow> bool" where
  "gemini_usage_ok um =
     (count_ok (opt_prop ''promptTokenCount'' um) \<and> count_ok (opt_prop ''candidatesTokenCount'' um) \<and>
      count_ok (opt_prop ''totalTokenCount'' um) \<and> count_ok (opt_prop ''thoughtsTokenCount'' um) \<and>
      details_ok um)"

definition jsonl_usage_ok :: "json option \<Rightarrow> bool" where
  "jsonl_usage_ok um =
     (count_ok (opt_prop ''promptTokenCount'' um) \<and> count_ok (opt_prop ''prompt_tokens'' um) \<and>
      count_ok (opt_prop ''candidatesTokenCount'' um) \<and>
      count_ok (opt_prop ''totalTokenCount'' um) \<and> count_ok (opt_prop ''total_tokens'' um) \<and>
      count_ok (opt_prop ''thoughtsTokenCount'' um) \<and>
      count_ok (opt_path [''completion_tokens_details'', ''reasoning_tokens''] um) \<and>
      details_ok um)"

text \<open>
  The usage object of a line of a results file: none for an empty line and for a line
  that does not parse, else \<^verbatim>\<open>obj?.response?.usageMetadata || obj?.response?.body?.usage\<close>.
\<close>

definition line_usage :: "(string \<Rightarrow> err + json) \<Rightarrow> string \<Rightarrow> json option option" where
  "line_usage JSON_parse line =
     (if line = [] then None
      else (case JSON_parse line of
              Inl parseError \<Rightarrow> None
            | Inr obj \<Rightarrow> Some (js_or (opt_path [''response'', ''usageMetadata''] (Some obj))
                                (opt_path [''response'', ''body'', ''usage''] (Some obj)))))"

text \<open>
  The four counts of a Claude result, read without a default, and the \<^verbatim>\<open>result\<close> of a
  line of a Claude results file: none for a line that does not parse or parses to
  \<^verbatim>\<open>null\<close>.
\<close>

definition is_count :: "json option \<Rightarrow> bool" where
  "is_count v = (case v of Some (JNum n) \<Rightarrow> 0 \<le> n | _ \<Rightarrow> False)"

definition claude_usage_ok :: "json option \<Rightarrow> bool" where
  "claude_usage_ok r =
     (is_count (opt_path [''message'', ''usage'', ''input_tokens''] r) \<and>
      is_count (opt_path [''message'', ''usage'', ''cache_creation_input_tokens''] r) \<and>
      is_count (opt_path [''message'', ''usage'', ''cache_read_input_tokens''] r) \<and>
      is_count (opt_path [''message'', ''usage'', ''output_tokens''] r))"

definition line_result :: "(string \<Rightarrow> err + json) \<Rightarrow> string \<Rightarrow> json option option" where
  "line_result JSON_parse line =
     (case JSON_parse line of
        Inl parseError \<Rightarrow> None
      | Inr parsed \<Rightarrow> if parsed = JNull then None else Some (opt_prop ''result'' (Some parsed)))"

definition claude_num_totals :: "int \<Rightarrow> int \<Rightarrow> int \<Rightarrow> int \<Rightarrow> claude_totals" where
  "claude_num_totals i cc cr out = \<lparr>input_tokens_total = Num i,
     cache_creation_input_tokens_total = Num cc, cache_read_input_tokens_total = Num cr,
     output_tokens_total = Num out\<rparr>"

subsection \<open>Sample usage data\<close>

text \<open>
  Two inline responses with usage, which also serve as lines of a results file of
  Gemini, a result line of an OpenAI batch, an errored result line of a Claude batch,
  and a parser that knows them.
\<close>

definition usage_item :: "json \<Rightarrow> json" where
  "usage_item usage = JObj [(''response'', JObj [(''usageMetadata'', usage)])]"

definition sample_usage1 :: json where
  "sample_usage1 = JObj [(''promptTokenCount'', JNum 3), (''candidatesTokenCount'', JNum 4),
     (''totalTokenCount'', JNum 7)]"

definition sample_usage2 :: json where
  "sample_usage2 = JObj [(''promptTokenCount'', JNum 5), (''totalTokenCount'', JNum 7),
     (''thoughtsTokenCount'', JNum 2),
     (''promptTokensDetails'', JArr [JObj [(''modality'', JStr ''TEXT''), (''tokenCount'', JNum 5)]])]"

definition sample_openai_line :: json where
  "sample_openai_line =
     JObj [(''custom_id'', JStr ''request-1''),
           (''response'', JObj [(''body'', JObj [(''usage'',
              JObj [(''prompt_tokens'', JNum 7), (''completion_tokens'', JNum 3), (''total_tokens'', JNum 10),
                    (''completion_tokens_details'', JObj [(''reasoning_tokens'', JNum 1)])])])])]"

definition sample_errored_line :: json where
  "sample_errored_line =
     JObj [(''custom_id'', JStr ''request-2''),
           (''result'', JObj [(''type'', JStr ''errored''),
              (''error'', JObj [(''type'', JStr ''invalid_request_error'')])])]"

definition usage_parse :: "string \<Rightarrow> err + json" where
  "usage_parse s =
     (if s = json_text sample_openai_line then Inr sample_openai_line
      else if s = json_text sample_errored_line then Inr sample_errored_line
      else if s = json_text (usage_item sample_usage1) then Inr (usage_item sample_usage1)
      else if s = json_text (usage_item sample_usage2) then Inr (usage_item sample_usage2)
      else sample_parse s)"

section \<open>Validation at the entry points\<close>

text \<open>
  Claim C9. \<^verbatim>\<open>submitBatchJob\<close> throws a validation error when the list of providers is
  missing or empty, or when the method is \<^verbatim>\<open>text_input\<close> and the list of prompts is
  missing or empty; \<^verbatim>\<open>getBatchJobStatus\<close> throws when the list of job ids is missing or
  empty. The state after the call is the state before it: no call has been sent, no job
  has been inserted and no job id has been used.
\<close>

theorem validation_rejected:
  "(models = None \<or> models = Some [] \<longrightarrow>
      submitBatchJob e now submitMethod ps models isSingleBatchChat temp systemPrompt st =
        (Inl ''At least one LLM must be selected.'', st)) \<and>
   (models = Some (m # ms) \<and> submitMethod = ''text_input'' \<and> (ps = None \<or> ps = Some []) \<longrightarrow>
      submitBatchJob e now submitMethod ps models isSingleBatchChat temp systemPrompt st =
        (Inl ''Prompts are required for text input method.'', st)) \<and>
   (internalJobIds = None \<or> internalJobIds = Some [] \<longrightarrow>
      getBatchJobStatus e now internalJobIds isFileUpload modelId st =
        (Inl ''No job IDs provided.'', st))"
  by (auto simp: submitBatchJob_def getBatchJobStatus_def)

theorem validation_rejected_witness:
  "submitBatchJob sample_env 0 ''text_input'' (Some []) (Some []) False None None empty_store =
     (Inl ''At least one LLM must be selected.'', empty_store) \<and>
   submitBatchJob sample_env 0 ''text_input'' (Some []) (Some [''gemini'']) False None None empty_store =
     (Inl ''Prompts are required for text input method.'', empty_store) \<and>
   getBatchJobStatus sample_env 0 None False ''gemini'' empty_store =
     (Inl ''No job IDs provided.'', empty_store)"
  using validation_rejected [where models = "Some []" and ps = "Some []" and e = sample_env
      and now = 0 and submitMethod = "''text_input''" and isSingleBatchChat = False and temp = None
      and systemPrompt = None and st = empty_store and internalJobIds = None
      and isFileUpload = False and modelId = "''gemini''"]
    validation_rejected [where models = "Some [''gemini'']" and m = "''gemini''" and ms = "[]"
      and ps = "Some []" and e = sample_env
      and now = 0 and submitMethod = "''text_input''" and isSingleBatchChat = False and temp = None
      and systemPrompt = None and st = empty_store]
  by simp

section \<open>Exact sums\<close>

text \<open>An integer below \<open>2 ^ 53\<close> in absolute value is a double: such a sum is exact.\<close>

lemma bit_length_le: "n < 2 ^ k \<Longrightarrow> bit_length n \<le> k"
proof (induction k arbitrary: n)
  case 0
  then show ?case by (subst bit_length.simps) simp
next
  case (Suc k)
  show ?case
  proof (cases "n \<le> 0")
    case True
    then show ?thesis by (subst bit_length.simps) simp
  next
    case False
    from Suc.prems have "n div 2 < 2 ^ k" by simp
    then have "bit_length (n div 2) \<le> k" by (rule Suc.IH)
    with False show ?thesis by (subst bit_length.simps) simp
  qed
qed

lemma nearest_double_exact: "\<bar>x\<bar> < 2 ^ 53 \<Longrightarrow> nearest_double x = x"
proof -
  assume a: "\<bar>x\<bar> < 2 ^ 53"
  then have "bit_length \<bar>x\<bar> \<le> 53" by (rule bit_length_le)
  then have k: "bit_length \<bar>x\<bar> - 53 = 0" by simp
  show ?thesis unfolding nearest_double_def Let_def k by (simp add: sgn_if)
qed

lemma double_sum_exact: "\<bar>n + m\<bar> < 2 ^ 53 \<Longrightarrow> double_sum n m = Num (n + m)"
proof -
  assume a: "\<bar>n + m\<bar> < 2 ^ 53"
  have "(2::int) ^ 53 < 2 ^ 1024" by simp
  with a have "\<not> \<bar>n + m\<bar> \<ge> 2 ^ 1024" by linarith
  with a show ?thesis by (simp add: double_sum_def nearest_double_exact Let_def)
qed

section \<open>The file paths read the first job id only\<close>

lemma file_data_no_updates: "file_data e d \<noteq> Inr (Updates u)"
  by (simp add: file_data_def split: sum.splits)

lemma gemini_file_result_no_updates: "fst (gemini_file_result e n st) \<noteq> Inr (Updates u)"
  unfolding gemini_file_result_def Let_def
  by (simp add: file_data_no_updates split: sum.splits)

lemma openai_file_result_no_updates: "fst (openai_file_result e n st) \<noteq> Inr (Updates u)"
  unfolding openai_file_result_def Let_def
  by (simp add: file_data_no_updates split: sum.splits option.splits)

lemma result_file_no_updates:
  "fst (getBatchJobResult e now (Some (operationName # others)) isSingleBatchChat True modelId st)
     \<noteq> Inr (Updates u)"
  unfolding getBatchJobResult_def
  by (simp add: gemini_file_result_no_updates openai_file_result_no_updates)

lemma status_file_dom:
  "getBatchJobStatus e now (Some (operationName # others)) True modelId st =
     (Inr (Updates statusUpdates), st') \<Longrightarrow> dom statusUpdates = {operationName}"
  unfolding getBatchJobStatus_def Let_def
  by (simp split: if_splits sum.splits) (auto split: if_splits)

text \<open>
  Claim C10. With the file-upload flag set, \<^verbatim>\<open>getBatchJobStatus\<close> and \<^verbatim>\<open>getBatchJobResult\<close>
  read the first job id only: the outcome and the state are those of the call with that
  id alone. Where the status call returns a mapping, its only key is the first id; the
  result call returns no mapping by job id at all.
\<close>

theorem file_upload_first_id_only:
  "getBatchJobStatus e now (Some (operationName # others)) True modelId st =
     getBatchJobStatus e now (Some [operationName]) True modelId st \<and>
   getBatchJobResult e now (Some (operationName # others)) isSingleBatchChat True modelId st =
     getBatchJobResult e now (Some [operationName]) isSingleBatchChat True modelId st \<and>
   (\<forall>statusUpdates st'.
      getBatchJobStatus e now (Some (operationName # others)) True modelId st =
        (Inr (Updates statusUpdates), st') \<longrightarrow> dom statusUpdates = {operationName}) \<and>
   (\<forall>statusUpdates.
      fst (getBatchJobResult e now (Some (operationName # others)) isSingleBatchChat True modelId st)
        \<noteq> Inr (Updates statusUpdates))"
proof (intro conjI allI impI)
  show "getBatchJobStatus e now (Some (operationName # others)) True modelId st =
     getBatchJobStatus e now (Some [operationName]) True modelId st"
    by (simp add: getBatchJobStatus_def)
  show "getBatchJobResult e now (Some (operationName # others)) isSingleBatchChat True modelId st =
     getBatchJobResult e now (Some [operationName]) isSingleBatchChat True modelId st"
    by (simp add: getBatchJobResult_def)
next
  fix statusUpdates st'
  assume "getBatchJobStatus e now (Some (operationName # others)) True modelId st =
        (Inr (Updates statusUpdates), st')"
  then show "dom statusUpdates = {operationName}" by (rule status_file_dom)
next
  fix statusUpdates
  show "fst (getBatchJobResult e now (Some (operationName # others)) isSingleBatchChat True modelId st)
        \<noteq> Inr (Updates statusUpdates)"
    by (rule result_file_no_updates)
qed

lemma sample_openai_status:
  "getBatchJobStatus sample_env 7 (Some [''batch_1'', ''batch_2'']) True ''openai'' empty_store =
     (Inr (Updates [''batch_1'' \<mapsto> FileStatus (Some (JStr ''in_progress'')) (Some JNull) (Some JNull)]),
      issue (Get (Some (JStr ''https://api.openai.com/v1/batches/batch_1''))) empty_store)"
  by (simp add: getBatchJobStatus_def sample_env_def get_prop_def nullish_def Let_def
      update_job_def empty_store_def issue_def)

theorem file_upload_first_id_only_witness:
  "getBatchJobStatus sample_env 7 (Some [''batch_1'', ''batch_2'']) True ''openai'' empty_store =
     getBatchJobStatus sample_env 7 (Some [''batch_1'']) True ''openai'' empty_store \<and>
   dom [''batch_1'' \<mapsto> FileStatus (Some (JStr ''in_progress'')) (Some JNull) (Some JNull)] = {''batch_1''} \<and>
   fst (getBatchJobStatus sample_env 7 (Some [''batch_1'', ''batch_2'']) True ''openai'' empty_store) =
     Inr (Updates [''batch_1'' \<mapsto> FileStatus (Some (JStr ''in_progress'')) (Some JNull) (Some JNull)])"
proof -
  note t = file_upload_first_id_only [of sample_env 7 "''batch_1''" "[''batch_2'']" "''openai''"
      empty_store False]
  from t have eq: "getBatchJobStatus sample_env 7 (Some [''batch_1'', ''batch_2'']) True ''openai'' empty_store =
     getBatchJobStatus sample_env 7 (Some [''batch_1'']) True ''openai'' empty_store"
    by (rule conjunct1)
  from t sample_openai_status
  have d: "dom [''batch_1'' \<mapsto> FileStatus (Some (JStr ''in_progress'')) (Some JNull) (Some JNull)] = {''batch_1''}"
    by blast
  have f: "fst (getBatchJobStatus sample_env 7 (Some [''batch_1'', ''batch_2'']) True ''openai'' empty_store) =
     Inr (Updates [''batch_1'' \<mapsto> FileStatus (Some (JStr ''in_progress'')) (Some JNull) (Some JNull)])"
    by (simp only: sample_openai_status fst_conv)
  from eq d f show ?thesis by (intro conjI)
qed

section \<open>A single conversation\<close>






section \<open>Status strings\<close>













section \<open>What a call leaves alone\<close>











lemma status_start_terminal:
  assumes "jobs st i = Some j" "terminal j"
  shows "status_start now (st, u, w) i =
           (st, u(i \<mapsto> JobStatus (status j) (result j) (lastChecked j)), w)"
  using assms by (auto simp: status_start_def terminal_def)






lemma status_terminal_alone:
  assumes "jobs st i = Some j" "terminal j"
  shows "getBatchJobStatus e now (Some [i]) False modelId st =
           (Inr (Updates [i \<mapsto> JobStatus (status j) (result j) (lastChecked j)]), st)"
  using assms by (simp add: getBatchJobStatus_def status_start_terminal)









section \<open>Results of a job that has not completed\<close>






section \<open>Terminal states\<close>

















section \<open>Results and prompts\<close>





lemma breakOn_newline_none: "CHR 0x0A \<notin> set a \<Longrightarrow> breakOn newline a = None"
  by (induction a) (auto simp: newline_def)

lemma breakOn_newline: "CHR 0x0A \<notin> set a \<Longrightarrow> breakOn newline (a @ newline @ b) = Some (a, b)"
  by (induction a) (auto simp: newline_def)

lemma split_newline_last: "CHR 0x0A \<notin> set a \<Longrightarrow> split_str newline a = [a]"
  by (subst split_str.simps) (simp add: breakOn_newline_none, simp add: newline_def)

lemma split_newline_cons:
  "CHR 0x0A \<notin> set a \<Longrightarrow> split_str newline (a @ newline @ b) = a # split_str newline b"
  by (subst split_str.simps) (simp add: breakOn_newline, simp add: newline_def)

lemma split_join_newline:
  "ls \<noteq> [] \<Longrightarrow> \<forall>l \<in> set ls. CHR 0x0A \<notin> set l \<Longrightarrow> split_str newline (js_join newline ls) = ls"
proof (induction ls)
  case Nil
  then show ?case by simp
next
  case (Cons x xs)
  show ?case
  proof (cases xs)
    case Nil
    with Cons.prems show ?thesis by (simp add: split_newline_last)
  next
    case (Cons y ys)
    with Cons.IH Cons.prems show ?thesis by (simp add: split_newline_cons)
  qed
qed

lemma trim_not_empty: "l \<noteq> [] \<Longrightarrow> \<not> is_ws (hd l) \<Longrightarrow> js_trim l \<noteq> []"
  by (cases l) (auto simp: js_trim_def dropWhile_eq_Nil_conv)

lemma sample_lines_plain:
  "CHR 0x0A \<notin> set sample_line1" "CHR 0x0A \<notin> set sample_line2"
  "sample_line1 \<noteq> []" "sample_line2 \<noteq> []" "\<not> is_ws (hd sample_line1)" "\<not> is_ws (hd sample_line2)"
  by (simp_all add: sample_line1_def sample_line2_def succeeded_line_def json_quote_def escape_char_def
      show_int_def digit_char_def is_ws_def)

lemma sample_lines_parse:
  "sample_parse sample_line1 = Inr (succeeded_line ''request-1'' ''one'')"
  "sample_parse sample_line2 = Inr (succeeded_line ''request-2'' ''two'')"
  by (simp_all add: sample_line1_def sample_line2_def sample_parse_def succeeded_line_def json_quote_def
      escape_char_def show_int_def digit_char_def)

lemma sample_claude_lines:
  "claude_lines (js_join newline [sample_line1, sample_line2]) = [sample_line1, sample_line2]"
  "claude_lines (js_join newline [sample_line2, sample_line1]) = [sample_line2, sample_line1]"
  unfolding claude_lines_def
  by (simp_all only: split_join_newline sample_lines_plain trim_not_empty list.set ball_simps
      filter.simps simp_thms if_True list.distinct insert_iff empty_iff)

lemma sample_blocks:
  "claude_block json_text [''a'', ''b''] (Suc 0) (succeeded_line ''request-1'' ''one'') =
     ''--- Request Key: request-1 ---'' @ newline @ ''Prompt: a'' @ newline @ ''Response: one'' @
     newline @ newline"
  "claude_block json_text [''a'', ''b''] (Suc (Suc 0)) (succeeded_line ''request-2'' ''two'') =
     ''--- Request Key: request-2 ---'' @ newline @ ''Prompt: b'' @ newline @ ''Response: two'' @
     newline @ newline"
  "claude_block json_text [''a'', ''b''] (Suc 0) (succeeded_line ''request-2'' ''two'') =
     ''--- Request Key: request-2 ---'' @ newline @ ''Prompt: a'' @ newline @ ''Response: two'' @
     newline @ newline"
  "claude_block json_text [''a'', ''b''] (Suc (Suc 0)) (succeeded_line ''request-1'' ''one'') =
     ''--- Request Key: request-1 ---'' @ newline @ ''Prompt: b'' @ newline @ ''Response: one'' @
     newline @ newline"
  by (simp_all add: claude_block_def succeeded_line_def js_or_def template_def claude_outcome_def)


lemma sample_inline_lro:
  "\<not> nullish (Some (inline_lro items))" "inlinedResponses_of (Some (inline_lro items)) = Some (JArr items)"
  by (simp_all add: nullish_def inline_lro_def inlinedResponses_of_def js_or_def)




section \<open>A malformed line\<close>

lemma js_join_snoc: "ls \<noteq> [] \<Longrightarrow> js_join sep (ls @ [x]) = js_join sep ls @ sep @ x"
proof (induction ls)
  case Nil
  then show ?case by simp
next
  case (Cons a ls)
  then show ?case by (cases ls) simp_all
qed

lemma js_join_hd: "ls \<noteq> [] \<Longrightarrow> hd ls \<noteq> [] \<Longrightarrow> hd (js_join sep ls) = hd (hd ls)"
proof (cases ls)
  case Nil
  assume "ls \<noteq> []"
  with Nil show ?thesis by simp
next
  case (Cons a as)
  assume "hd ls \<noteq> []"
  with Cons show ?thesis by (cases as) simp_all
qed

lemma js_join_last: "ls \<noteq> [] \<Longrightarrow> last ls \<noteq> [] \<Longrightarrow> last (js_join sep ls) = last (last ls)"
proof (induction ls rule: rev_induct)
  case Nil
  then show ?case by simp
next
  case (snoc x xs)
  then show ?case by (cases "xs = []") (simp_all add: js_join_snoc)
qed

lemma js_join_not_empty: "ls \<noteq> [] \<Longrightarrow> hd ls \<noteq> [] \<Longrightarrow> js_join sep ls \<noteq> []"
proof (cases ls)
  case Nil
  assume "ls \<noteq> []"
  with Nil show ?thesis by simp
next
  case (Cons a as)
  assume "hd ls \<noteq> []"
  with Cons show ?thesis by (cases as) simp_all
qed

lemma trim_body:
  assumes "body \<noteq> []" "\<not> is_ws (hd body)" "\<not> is_ws (last body)" "\<forall>c \<in> set post. is_ws c"
  shows "js_trim (body @ post) = body"
proof -
  from assms(1,2) have a: "dropWhile is_ws (body @ post) = body @ post"
    by (cases body) simp_all
  from assms(4) have b: "dropWhile is_ws (rev post @ rev body) = dropWhile is_ws (rev body)"
    by (intro dropWhile_append2) simp
  from assms(1,3) have c: "dropWhile is_ws (rev body) = rev body"
    by (cases body rule: rev_cases) simp_all
  show ?thesis by (simp add: js_trim_def a b c)
qed

lemma split_join_newline_tail:
  assumes "ls \<noteq> []" "\<forall>l \<in> set ls. CHR 0x0A \<notin> set l"
  shows "split_str newline (js_join newline ls @ newline) = ls @ [[]]"
proof -
  from assms(1) have "js_join newline ls @ newline = js_join newline (ls @ [[]])"
    by (simp add: js_join_snoc)
  moreover from assms have "split_str newline (js_join newline (ls @ [[]])) = ls @ [[]]"
    by (intro split_join_newline) auto
  ultimately show ?thesis by simp
qed

lemma trim_empty: "js_trim [] = []"
  by (simp add: js_trim_def)

lemma claude_lines_join:
  assumes "\<forall>l \<in> set ls. CHR 0x0A \<notin> set l"
  shows "claude_lines (js_join newline ls) = filter (\<lambda>line. js_trim line \<noteq> []) ls"
proof (cases "ls = []")
  case True
  then show ?thesis by (simp add: claude_lines_def split_newline_last trim_empty)
next
  case False
  with assms show ?thesis by (simp add: claude_lines_def split_join_newline)
qed

lemma claude_lines_join_tail:
  assumes "\<forall>l \<in> set ls. CHR 0x0A \<notin> set l" "ls \<noteq> []"
  shows "claude_lines (js_join newline ls @ newline) = filter (\<lambda>line. js_trim line \<noteq> []) ls"
  using assms by (simp add: claude_lines_def split_join_newline_tail trim_empty)

lemma claude_line_malformed:
  "JSON_parse bad = Inl er \<Longrightarrow> claude_line JSON_stringify JSON_parse ps state bad = state"
  by (cases state) (simp add: claude_line_def)

lemma claude_fold_malformed:
  assumes "JSON_parse bad = Inl er"
  shows "foldl (claude_line JSON_stringify JSON_parse ps) state
           (filter (\<lambda>line. js_trim line \<noteq> []) (xs @ [bad] @ ys)) =
         foldl (claude_line JSON_stringify JSON_parse ps) state
           (filter (\<lambda>line. js_trim line \<noteq> []) (xs @ ys))"
  using assms by (simp add: claude_line_malformed)

lemma jsonl_entries:
  assumes "\<forall>l \<in> set ls. l \<noteq> [] \<and> (\<exists>v. JSON_parse l = Inr v \<and> v \<noteq> JNull)"
  shows "filter (\<lambda>item. item \<noteq> JNull)
           (map (\<lambda>line. if line \<noteq> [] then
                            (case JSON_parse line of Inr v \<Rightarrow> v | Inl parseError \<Rightarrow> error_entry line)
                          else JNull) ls) =
         map (\<lambda>l. projr (JSON_parse l)) ls"
  using assms by (induction ls) auto

text \<open>
  Claim C5, as amended. Take a download made of lines without line feeds, one of which is
  malformed (\<^verbatim>\<open>JSON.parse\<close> throws on it), with or without a final line feed.
  \<^verbatim>\<open>parseJsonlResults\<close>, when no line is empty, the text neither starts nor ends with white
  space other than that final line feed, and every other line parses to a value other
  than \<^verbatim>\<open>null\<close>, returns the parsed values in the order of the lines with the entry
  \<^verbatim>\<open>{error, rawLine}\<close> at the place of the malformed line, and throws nothing. The
  results of a Claude batch are parsed by another loop, which records no entry for a
  malformed line: it skips the line, so that the outcome is that of the text without
  it; that loop never throws either.
\<close>

theorem malformed_line_isolated:
  "(lines = xs @ [bad] @ ys \<and> (\<forall>l \<in> set lines. l \<noteq> [] \<and> CHR 0x0A \<notin> set l) \<and>
    \<not> is_ws (hd (hd lines)) \<and> \<not> is_ws (last (last lines)) \<and>
    (\<forall>l \<in> set (xs @ ys). \<exists>v. JSON_parse l = Inr v \<and> v \<noteq> JNull) \<and>
    JSON_parse bad = Inl er \<and> (tail = [] \<or> tail = newline) \<longrightarrow>
      parseJsonlResults JSON_parse (JStr (js_join newline lines @ tail)) =
        Inr (map (\<lambda>l. projr (JSON_parse l)) xs @ [error_entry bad] @
             map (\<lambda>l. projr (JSON_parse l)) ys)) \<and>
   (lines = xs @ [bad] @ ys \<and> (\<forall>l \<in> set lines. CHR 0x0A \<notin> set l) \<and>
    JSON_parse bad = Inl er \<and> (tail = [] \<or> tail = newline) \<longrightarrow>
      claude_results JSON_stringify JSON_parse (Inr (JStr (js_join newline lines @ tail))) ps False =
      claude_results JSON_stringify JSON_parse (Inr (JStr (js_join newline (xs @ ys)))) ps False) \<and>
   (\<exists>returnMessage t.
      claude_results JSON_stringify JSON_parse (Inr (JStr s)) ps False = Inr (returnMessage, t))"
proof (intro conjI impI)
  assume a: "lines = xs @ [bad] @ ys \<and> (\<forall>l \<in> set lines. l \<noteq> [] \<and> CHR 0x0A \<notin> set l) \<and>
    \<not> is_ws (hd (hd lines)) \<and> \<not> is_ws (last (last lines)) \<and>
    (\<forall>l \<in> set (xs @ ys). \<exists>v. JSON_parse l = Inr v \<and> v \<noteq> JNull) \<and>
    JSON_parse bad = Inl er \<and> (tail = [] \<or> tail = newline)"
  then have ne: "lines \<noteq> []" by auto
  then have "hd lines \<in> set lines" "last lines \<in> set lines" by simp_all
  with a have hdne: "hd lines \<noteq> []" and lastne: "last lines \<noteq> []" by blast+
  from a have ws: "\<forall>c \<in> set tail. is_ws c" by (auto simp: newline_def is_ws_def)
  from a have h: "\<not> is_ws (hd (hd lines))" "\<not> is_ws (last (last lines))" by blast+
  from a have nl: "\<forall>l \<in> set lines. CHR 0x0A \<notin> set l" by blast
  have "js_trim (js_join newline lines @ tail) = js_join newline lines"
    using js_join_not_empty [OF ne hdne, of newline] h ws
    by (intro trim_body) (simp_all add: js_join_hd [OF ne hdne] js_join_last [OF ne lastne])
  moreover have "split_str newline (js_join newline lines) = lines"
    by (rule split_join_newline [OF ne nl])
  ultimately have sp: "split_str newline (js_trim (js_join newline lines @ tail)) = xs @ [bad] @ ys"
    using a by simp
  from a have v: "\<forall>l \<in> set xs. l \<noteq> [] \<and> (\<exists>v. JSON_parse l = Inr v \<and> v \<noteq> JNull)"
    "\<forall>l \<in> set ys. l \<noteq> [] \<and> (\<exists>v. JSON_parse l = Inr v \<and> v \<noteq> JNull)"
    by auto
  from a have b: "bad \<noteq> []" "JSON_parse bad = Inl er" by auto
  show "parseJsonlResults JSON_parse (JStr (js_join newline lines @ tail)) =
        Inr (map (\<lambda>l. projr (JSON_parse l)) xs @ [error_entry bad] @
             map (\<lambda>l. projr (JSON_parse l)) ys)"
    unfolding parseJsonlResults_def json.case sp
    by (simp add: jsonl_entries [OF v(1)] jsonl_entries [OF v(2)] b error_entry_def)
next
  assume a: "lines = xs @ [bad] @ ys \<and> (\<forall>l \<in> set lines. CHR 0x0A \<notin> set l) \<and>
    JSON_parse bad = Inl er \<and> (tail = [] \<or> tail = newline)"
  then have l1: "claude_lines (js_join newline lines @ tail) =
      filter (\<lambda>line. js_trim line \<noteq> []) (xs @ [bad] @ ys)"
    using claude_lines_join [of lines] claude_lines_join_tail [of lines] by auto
  from a have l2: "claude_lines (js_join newline (xs @ ys)) = filter (\<lambda>line. js_trim line \<noteq> []) (xs @ ys)"
    by (intro claude_lines_join) auto
  from a have "JSON_parse bad = Inl er" by simp
  from claude_fold_malformed [where JSON_parse = JSON_parse and bad = bad and er = er
      and JSON_stringify = JSON_stringify and ps = ps and xs = xs and ys = ys
      and state = "(0, [], zero_claude_totals)", OF this] l1 l2
  show "claude_results JSON_stringify JSON_parse (Inr (JStr (js_join newline lines @ tail))) ps False =
      claude_results JSON_stringify JSON_parse (Inr (JStr (js_join newline (xs @ ys)))) ps False"
    by (simp add: claude_results_def)
next
  show "\<exists>returnMessage t.
      claude_results JSON_stringify JSON_parse (Inr (JStr s)) ps False = Inr (returnMessage, t)"
    by (simp add: claude_results_def split: prod.splits)
qed

lemma sample_oops: "sample_parse ''oops'' = Inl ''Unexpected token''"
  by (simp add: sample_parse_def succeeded_line_def json_quote_def)

lemma sample_null: "sample_parse ''null'' = Inr JNull"
  by (simp add: sample_parse_def)

lemma sample_line2_last: "\<not> is_ws (last sample_line2)"
  by (simp add: sample_line2_def succeeded_line_def json_quote_def escape_char_def
      show_int_def digit_char_def is_ws_def)

lemma sample_claude_ordered:
  "fst (projr (claude_results json_text sample_parse
          (Inr (JStr (js_join newline [sample_line1, sample_line2]))) (Some [''a'', ''b'']) False)) =
     ''--- Request Key: request-1 ---'' @ newline @ ''Prompt: a'' @ newline @ ''Response: one'' @
     newline @ newline @
     ''--- Request Key: request-2 ---'' @ newline @ ''Prompt: b'' @ newline @ ''Response: two'' @
     newline @ newline"
proof -
  have "foldl (claude_line json_text sample_parse (Some [''a'', ''b'']))
          (0, [], zero_claude_totals) [sample_line1, sample_line2] =
        (2, claude_block json_text [''a'', ''b''] (Suc 0) (succeeded_line ''request-1'' ''one'') @
            claude_block json_text [''a'', ''b''] (Suc (Suc 0)) (succeeded_line ''request-2'' ''two''),
         claude_add_usage (claude_add_usage zero_claude_totals
            (opt_prop ''result'' (Some (succeeded_line ''request-1'' ''one''))))
            (opt_prop ''result'' (Some (succeeded_line ''request-2'' ''two''))))"
    by (simp add: claude_line_def sample_lines_parse) (simp_all add: succeeded_line_def)
  then show ?thesis
    unfolding claude_results_def by (simp add: sample_claude_lines sample_blocks del: js_join.simps)
qed

theorem malformed_line_isolated_witness:
  "parseJsonlResults sample_parse
     (JStr (js_join newline [sample_line1, ''oops'', sample_line2] @ newline)) =
     Inr [succeeded_line ''request-1'' ''one'', error_entry ''oops'',
          succeeded_line ''request-2'' ''two''] \<and>
   fst (projr (claude_results json_text sample_parse
          (Inr (JStr (js_join newline [sample_line1, ''oops'', sample_line2] @ newline)))
          (Some [''a'', ''b'']) False)) =
     ''--- Request Key: request-1 ---'' @ newline @ ''Prompt: a'' @ newline @ ''Response: one'' @
     newline @ newline @
     ''--- Request Key: request-2 ---'' @ newline @ ''Prompt: b'' @ newline @ ''Response: two'' @
     newline @ newline"
proof -
  note t = malformed_line_isolated [where lines = "[sample_line1, ''oops'', sample_line2]"
      and xs = "[sample_line1]" and bad = "''oops''" and ys = "[sample_line2]"
      and JSON_parse = sample_parse and er = "''Unexpected token''" and tail = newline
      and JSON_stringify = json_text and ps = "Some [''a'', ''b'']"]
  have h: "[sample_line1, ''oops'', sample_line2] = [sample_line1] @ [''oops''] @ [sample_line2] \<and>
    (\<forall>l \<in> set [sample_line1, ''oops'', sample_line2]. l \<noteq> [] \<and> CHR 0x0A \<notin> set l) \<and>
    \<not> is_ws (hd (hd [sample_line1, ''oops'', sample_line2])) \<and>
    \<not> is_ws (last (last [sample_line1, ''oops'', sample_line2])) \<and>
    (\<forall>l \<in> set ([sample_line1] @ [sample_line2]). \<exists>v. sample_parse l = Inr v \<and> v \<noteq> JNull) \<and>
    sample_parse ''oops'' = Inl ''Unexpected token'' \<and> (newline = [] \<or> newline = newline)"
    by (simp add: sample_lines_plain sample_line2_last sample_lines_parse sample_oops)
       (simp add: succeeded_line_def)
  from t h have "parseJsonlResults sample_parse
     (JStr (js_join newline [sample_line1, ''oops'', sample_line2] @ newline)) =
        Inr (map (\<lambda>l. projr (sample_parse l)) [sample_line1] @ [error_entry ''oops''] @
             map (\<lambda>l. projr (sample_parse l)) [sample_line2])"
    by blast
  then have a: "parseJsonlResults sample_parse
     (JStr (js_join newline [sample_line1, ''oops'', sample_line2] @ newline)) =
     Inr [succeeded_line ''request-1'' ''one'', error_entry ''oops'',
          succeeded_line ''request-2'' ''two'']"
    by (simp add: sample_lines_parse del: js_join.simps)
  from h have h2: "[sample_line1, ''oops'', sample_line2] = [sample_line1] @ [''oops''] @ [sample_line2] \<and>
    (\<forall>l \<in> set [sample_line1, ''oops'', sample_line2]. CHR 0x0A \<notin> set l) \<and>
    sample_parse ''oops'' = Inl ''Unexpected token'' \<and> (newline = [] \<or> newline = newline)"
    by simp
  from t h2 have "claude_results json_text sample_parse
          (Inr (JStr (js_join newline [sample_line1, ''oops'', sample_line2] @ newline)))
          (Some [''a'', ''b'']) False =
      claude_results json_text sample_parse
          (Inr (JStr (js_join newline ([sample_line1] @ [sample_line2])))) (Some [''a'', ''b'']) False"
    by blast
  then have b: "fst (projr (claude_results json_text sample_parse
          (Inr (JStr (js_join newline [sample_line1, ''oops'', sample_line2] @ newline)))
          (Some [''a'', ''b'']) False)) =
     ''--- Request Key: request-1 ---'' @ newline @ ''Prompt: a'' @ newline @ ''Response: one'' @
     newline @ newline @
     ''--- Request Key: request-2 ---'' @ newline @ ''Prompt: b'' @ newline @ ''Response: two'' @
     newline @ newline"
    using sample_claude_ordered by (simp only: append.simps)
  from a b show ?thesis by (intro conjI)
qed

text \<open>
  The claim as stated fails in two ways: in the results of a Claude batch the malformed
  line leaves no entry at all; and \<^verbatim>\<open>parseJsonlResults\<close> drops a well-formed line whose
  value is \<^verbatim>\<open>null\<close>, which its \<^verbatim>\<open>filter\<close> takes for an empty line.
\<close>

theorem malformed_line_isolated_counterexample:
  "sample_parse sample_line1 = Inr (succeeded_line ''request-1'' ''one'') \<and>
   sample_parse ''oops'' = Inl ''Unexpected token'' \<and>
   fst (projr (claude_results json_text sample_parse
          (Inr (JStr (js_join newline [sample_line1, ''oops'']))) (Some [''a'', ''b'']) False)) =
     ''--- Request Key: request-1 ---'' @ newline @ ''Prompt: a'' @ newline @ ''Response: one'' @
     newline @ newline \<and>
   sample_parse ''null'' = Inr JNull \<and>
   parseJsonlResults sample_parse (JStr (js_join newline [''null'', ''oops''])) =
     Inr [error_entry ''oops'']"
proof -
  have t1: "js_trim sample_line1 \<noteq> []"
    by (rule trim_not_empty [OF sample_lines_plain(3) sample_lines_plain(5)])
  have t2: "js_trim ''oops'' \<noteq> []" by (simp add: js_trim_def is_ws_def)
  have "\<forall>l \<in> set [sample_line1, ''oops'']. CHR 0x0A \<notin> set l" by (simp add: sample_lines_plain)
  from claude_lines_join [OF this] t1 t2
  have l: "claude_lines (js_join newline [sample_line1, ''oops'']) = [sample_line1, ''oops'']"
    by simp
  have "foldl (claude_line json_text sample_parse (Some [''a'', ''b'']))
          (0, [], zero_claude_totals) [sample_line1, ''oops''] =
        (Suc 0, claude_block json_text [''a'', ''b''] (Suc 0) (succeeded_line ''request-1'' ''one''),
         claude_add_usage zero_claude_totals
            (opt_prop ''result'' (Some (succeeded_line ''request-1'' ''one''))))"
    by (simp add: claude_line_def sample_lines_parse sample_oops) (simp_all add: succeeded_line_def)
  then have a: "fst (projr (claude_results json_text sample_parse
          (Inr (JStr (js_join newline [sample_line1, ''oops'']))) (Some [''a'', ''b'']) False)) =
     ''--- Request Key: request-1 ---'' @ newline @ ''Prompt: a'' @ newline @ ''Response: one'' @
     newline @ newline"
    unfolding claude_results_def by (simp add: l sample_blocks del: js_join.simps)
  have "split_str newline (js_trim (js_join newline [''null'', ''oops''])) = [''null'', ''oops'']"
    by (simp add: js_trim_def is_ws_def newline_def split_str.simps)
  then have b: "parseJsonlResults sample_parse (JStr (js_join newline [''null'', ''oops''])) =
     Inr [error_entry ''oops'']"
    unfolding parseJsonlResults_def json.case
    by (simp add: sample_oops sample_null error_entry_def del: js_join.simps)
  from a b sample_lines_parse(1) sample_oops sample_null show ?thesis by (intro conjI)
qed

section \<open>Usage totals\<close>

lemma count_of_nonneg: "count_ok v \<Longrightarrow> 0 \<le> count_of v"
  by (auto simp: count_ok_def count_of_def split: option.splits json.splits)

lemma count_either_nonneg: "count_ok v \<Longrightarrow> count_ok w \<Longrightarrow> 0 \<le> count_either v w"
  by (simp add: count_either_def count_of_nonneg)

lemma or_zero_count: "count_ok v \<Longrightarrow> or_zero v = Some (JNum (count_of v))"
  by (auto simp: count_ok_def count_of_def or_zero_def js_or_def split: option.splits json.splits)

lemma either_count:
  "count_ok v \<Longrightarrow> count_ok w \<Longrightarrow> js_or v (or_zero w) = Some (JNum (count_either v w))"
  by (auto simp: count_ok_def count_of_def count_either_def or_zero_def js_or_def
      split: option.splits json.splits)

lemma is_count_value: "is_count v \<Longrightarrow> v = Some (JNum (count_of v)) \<and> 0 \<le> count_of v"
  by (auto simp: is_count_def count_of_def split: option.splits json.splits)

lemma add_exact: "0 \<le> a \<Longrightarrow> 0 \<le> n \<Longrightarrow> exact_total (a + n) \<Longrightarrow> js_add (Num a) (Some (JNum n)) = Num (a + n)"
  by (simp add: exact_total_def double_sum_exact)

lemma sum_list_map_nonneg: "(\<And>x. x \<in> set xs \<Longrightarrow> (0::int) \<le> f x) \<Longrightarrow> 0 \<le> (\<Sum>x\<leftarrow>xs. f x)"
  by (induction xs) simp_all

lemma exact_total_less: "exact_total b \<Longrightarrow> a \<le> b \<Longrightarrow> exact_total a"
  by (simp add: exact_total_def)

text \<open>One total through a loop whose steps add counts to it.\<close>

lemma total_fold:
  assumes step: "\<And>T x a. x \<in> set xs \<Longrightarrow> proj T = Num a \<Longrightarrow> 0 \<le> a \<Longrightarrow> exact_total (a + n x) \<Longrightarrow>
                   proj (F T x) = Num (a + n x)"
    and nonneg: "\<And>x. x \<in> set xs \<Longrightarrow> 0 \<le> n x"
    and start: "proj T = Num a" "0 \<le> a"
    and fits: "exact_total (a + (\<Sum>x\<leftarrow>xs. n x))"
  shows "proj (foldl F T xs) = Num (a + (\<Sum>x\<leftarrow>xs. n x))"
  using assms
proof (induction xs arbitrary: T a)
  case Nil
  then show ?case by simp
next
  case (Cons x xs)
  have rest: "0 \<le> (\<Sum>y\<leftarrow>xs. n y)"
    by (rule sum_list_map_nonneg) (simp add: Cons.prems(2))
  have nx: "0 \<le> n x" by (simp add: Cons.prems(2))
  from Cons.prems(5) rest have "exact_total (a + n x)"
    by (auto elim: exact_total_less)
  with Cons.prems have s: "proj (F T x) = Num (a + n x)" by simp
  have "proj (foldl F (F T x) xs) = Num ((a + n x) + (\<Sum>y\<leftarrow>xs. n y))"
  proof (rule Cons.IH)
    show "\<And>T' y b. y \<in> set xs \<Longrightarrow> proj T' = Num b \<Longrightarrow> 0 \<le> b \<Longrightarrow> exact_total (b + n y) \<Longrightarrow>
            proj (F T' y) = Num (b + n y)"
      by (rule Cons.prems(1)) simp_all
    show "\<And>y. y \<in> set xs \<Longrightarrow> 0 \<le> n y" by (simp add: Cons.prems(2))
    show "proj (F T x) = Num (a + n x)" by (rule s)
    from Cons.prems(4) nx show "0 \<le> a + n x" by simp
    from Cons.prems(5) show "exact_total (a + n x + (\<Sum>y\<leftarrow>xs. n y))" by (simp add: add.assoc)
  qed
  then show ?case by (simp add: add.assoc)
qed


lemma add_details_ok:
  "list_all (\<lambda>d. d \<noteq> JNull \<and> count_ok (opt_prop ''tokenCount'' (Some d))) ds \<Longrightarrow> 0 \<le> a \<Longrightarrow>
   exact_total (a + (\<Sum>d\<leftarrow>ds. count_of (opt_prop ''tokenCount'' (Some d)))) \<Longrightarrow>
   add_details (Num a) ds = (Num (a + (\<Sum>d\<leftarrow>ds. count_of (opt_prop ''tokenCount'' (Some d)))), False)"
proof (induction ds arbitrary: a)
  case Nil
  then show ?case by simp
next
  case (Cons x ds)
  from Cons.prems(1) have ok: "x \<noteq> JNull" "count_ok (opt_prop ''tokenCount'' (Some x))"
    and rest: "list_all (\<lambda>d. d \<noteq> JNull \<and> count_ok (opt_prop ''tokenCount'' (Some d))) ds"
    by simp_all
  from rest have r: "0 \<le> (\<Sum>d\<leftarrow>ds. count_of (opt_prop ''tokenCount'' (Some d)))"
    by (intro sum_list_map_nonneg) (simp add: list_all_iff count_of_nonneg)
  from ok have c: "0 \<le> count_of (opt_prop ''tokenCount'' (Some x))" by (simp add: count_of_nonneg)
  from Cons.prems(3) r have e: "exact_total (a + count_of (opt_prop ''tokenCount'' (Some x)))"
    by (auto elim: exact_total_less)
  from Cons.prems(3)
  have e2: "exact_total (a + count_of (opt_prop ''tokenCount'' (Some x)) +
                (\<Sum>d\<leftarrow>ds. count_of (opt_prop ''tokenCount'' (Some d))))"
    by (simp add: add.assoc)
  from Cons.prems(2) c have a2: "0 \<le> a + count_of (opt_prop ''tokenCount'' (Some x))" by simp
  from Cons.prems(2) c e
  have "js_add (Num a) (Some (JNum (count_of (opt_prop ''tokenCount'' (Some x))))) =
          Num (a + count_of (opt_prop ''tokenCount'' (Some x)))"
    by (rule add_exact)
  with Cons.IH [OF rest a2 e2] ok show ?case
    by (simp add: or_zero_count add.assoc del: js_add.simps)
qed

lemma add_details_of_others:
  "totalPromptTokenCount (fst (add_details_of T um)) = totalPromptTokenCount T"
  "totalCandidatesTokenCount (fst (add_details_of T um)) = totalCandidatesTokenCount T"
  "totalTotalTokenCount (fst (add_details_of T um)) = totalTotalTokenCount T"
  "totalThoughtsTokenCount (fst (add_details_of T um)) = totalThoughtsTokenCount T"
  by (simp_all add: add_details_of_def split: option.splits prod.splits)

lemma add_details_of_ok:
  assumes "details_ok um" "totalPromptDetailsTokenCount T = Num a" "0 \<le> a"
    "exact_total (a + details_sum um)"
  shows "totalPromptDetailsTokenCount (fst (add_details_of T um)) = Num (a + details_sum um)"
proof (cases "opt_prop ''promptTokensDetails'' um")
  case None
  with assms show ?thesis
    by (simp add: add_details_of_def details_sum_def js_or_def)
next
  case (Some v)
  with assms(1) obtain ds where v: "v = JArr ds"
    and ok: "list_all (\<lambda>d. d \<noteq> JNull \<and> count_ok (opt_prop ''tokenCount'' (Some d))) ds"
    by (auto simp: details_ok_def split: json.splits)
  from Some v assms(4) have "exact_total (a + (\<Sum>d\<leftarrow>ds. count_of (opt_prop ''tokenCount'' (Some d))))"
    by (simp add: details_sum_def)
  from add_details_ok [OF ok assms(3) this] Some v assms(2) show ?thesis
    by (simp add: add_details_of_def details_sum_def js_or_def)
qed

lemma details_sum_nonneg: "details_ok um \<Longrightarrow> 0 \<le> details_sum um"
  by (auto simp: details_ok_def details_sum_def list_all_iff count_of_nonneg
      intro!: sum_list_map_nonneg split: option.splits json.splits)

lemma gemini_add_usage_fields:
  "totalPromptTokenCount (fst (gemini_add_usage T um)) =
     js_add (totalPromptTokenCount T) (or_zero (opt_prop ''promptTokenCount'' um))"
  "totalCandidatesTokenCount (fst (gemini_add_usage T um)) =
     js_add (totalCandidatesTokenCount T) (or_zero (opt_prop ''candidatesTokenCount'' um))"
  "totalTotalTokenCount (fst (gemini_add_usage T um)) =
     js_add (totalTotalTokenCount T) (or_zero (opt_prop ''totalTokenCount'' um))"
  "totalThoughtsTokenCount (fst (gemini_add_usage T um)) =
     js_add (totalThoughtsTokenCount T) (or_zero (opt_prop ''thoughtsTokenCount'' um))"
  by (simp_all add: gemini_add_usage_def add_details_of_others)

lemma gemini_add_usage_details:
  assumes "details_ok um" "totalPromptDetailsTokenCount T = Num a" "0 \<le> a"
    "exact_total (a + details_sum um)"
  shows "totalPromptDetailsTokenCount (fst (gemini_add_usage T um)) = Num (a + details_sum um)"
  unfolding gemini_add_usage_def using assms by (intro add_details_of_ok) simp_all

lemma totals_eq:
  "totalPromptTokenCount T = Num p \<Longrightarrow> totalCandidatesTokenCount T = Num c \<Longrightarrow>
   totalTotalTokenCount T = Num t \<Longrightarrow> totalThoughtsTokenCount T = Num th \<Longrightarrow>
   totalPromptDetailsTokenCount T = Num d \<Longrightarrow> T = num_totals p c t th d"
  by (cases T) (simp add: num_totals_def)

lemma gemini_add_usage_ok:
  assumes "gemini_usage_ok um"
    "exact_total (count_of (opt_prop ''promptTokenCount'' um))"
    "exact_total (count_of (opt_prop ''candidatesTokenCount'' um))"
    "exact_total (count_of (opt_prop ''totalTokenCount'' um))"
    "exact_total (count_of (opt_prop ''thoughtsTokenCount'' um))"
    "exact_total (details_sum um)"
  shows "fst (gemini_add_usage zero_totals um) =
     num_totals (count_of (opt_prop ''promptTokenCount'' um))
        (count_of (opt_prop ''candidatesTokenCount'' um))
        (count_of (opt_prop ''totalTokenCount'' um))
        (count_of (opt_prop ''thoughtsTokenCount'' um))
        (details_sum um)"
proof (rule totals_eq)
  from assms show "totalPromptTokenCount (fst (gemini_add_usage zero_totals um)) =
      Num (count_of (opt_prop ''promptTokenCount'' um))"
    using add_exact [of 0 "count_of (opt_prop ''promptTokenCount'' um)"]
    by (simp add: gemini_add_usage_fields gemini_usage_ok_def or_zero_count zero_totals_def count_of_nonneg)
  from assms show "totalCandidatesTokenCount (fst (gemini_add_usage zero_totals um)) =
      Num (count_of (opt_prop ''candidatesTokenCount'' um))"
    using add_exact [of 0 "count_of (opt_prop ''candidatesTokenCount'' um)"]
    by (simp add: gemini_add_usage_fields gemini_usage_ok_def or_zero_count zero_totals_def count_of_nonneg)
  from assms show "totalTotalTokenCount (fst (gemini_add_usage zero_totals um)) =
      Num (count_of (opt_prop ''totalTokenCount'' um))"
    using add_exact [of 0 "count_of (opt_prop ''totalTokenCount'' um)"]
    by (simp add: gemini_add_usage_fields gemini_usage_ok_def or_zero_count zero_totals_def count_of_nonneg)
  from assms show "totalThoughtsTokenCount (fst (gemini_add_usage zero_totals um)) =
      Num (count_of (opt_prop ''thoughtsTokenCount'' um))"
    using add_exact [of 0 "count_of (opt_prop ''thoughtsTokenCount'' um)"]
    by (simp add: gemini_add_usage_fields gemini_usage_ok_def or_zero_count zero_totals_def count_of_nonneg)
  from assms show "totalPromptDetailsTokenCount (fst (gemini_add_usage zero_totals um)) =
      Num (details_sum um)"
    using gemini_add_usage_details [of um zero_totals 0]
    by (simp add: gemini_usage_ok_def zero_totals_def)
qed

lemma add_details_threw:
  "add_details t ds = (x, True) \<Longrightarrow>
   list_all (\<lambda>d. d \<noteq> JNull \<and> count_ok (opt_prop ''tokenCount'' (Some d))) ds \<Longrightarrow> False"
  by (induction ds arbitrary: t) simp_all

lemma gemini_add_usage_threw: "gemini_usage_ok um \<Longrightarrow> \<not> snd (gemini_add_usage T um)"
  by (auto simp: gemini_add_usage_def gemini_usage_ok_def add_details_of_def details_ok_def js_or_def
      split: option.splits json.splits prod.splits dest: add_details_threw)


lemma add_or_zero:
  "count_ok v \<Longrightarrow> 0 \<le> a \<Longrightarrow> exact_total (a + count_of v) \<Longrightarrow>
   js_add (Num a) (or_zero v) = Num (a + count_of v)"
  by (simp add: or_zero_count add_exact count_of_nonneg del: js_add.simps)

lemma add_either:
  "count_ok v \<Longrightarrow> count_ok w \<Longrightarrow> 0 \<le> a \<Longrightarrow> exact_total (a + count_either v w) \<Longrightarrow>
   js_add (Num a) (js_or v (or_zero w)) = Num (a + count_either v w)"
  by (simp add: either_count add_exact count_either_nonneg del: js_add.simps)

lemma add_count:
  "is_count v \<Longrightarrow> 0 \<le> a \<Longrightarrow> exact_total (a + count_of v) \<Longrightarrow> js_add (Num a) v = Num (a + count_of v)"
  using is_count_value [of v] add_exact [of a "count_of v"] by simp

lemma gemini_usage_fold:
  assumes ok: "list_all (\<lambda>entry. gemini_usage_ok (entry_usageMetadata (Some entry))) entries"
    and p: "p = (\<Sum>entry\<leftarrow>entries. count_of (opt_prop ''promptTokenCount'' (entry_usageMetadata (Some entry))))"
    and c: "c = (\<Sum>entry\<leftarrow>entries. count_of (opt_prop ''candidatesTokenCount'' (entry_usageMetadata (Some entry))))"
    and t: "t = (\<Sum>entry\<leftarrow>entries. count_of (opt_prop ''totalTokenCount'' (entry_usageMetadata (Some entry))))"
    and th: "th = (\<Sum>entry\<leftarrow>entries. count_of (opt_prop ''thoughtsTokenCount'' (entry_usageMetadata (Some entry))))"
    and d: "d = (\<Sum>entry\<leftarrow>entries. details_sum (entry_usageMetadata (Some entry)))"
    and fits: "exact_total p" "exact_total c" "exact_total t" "exact_total th" "exact_total d"
  shows "foldl (\<lambda>T entry. fst (gemini_add_usage T (entry_usageMetadata (Some entry)))) zero_totals entries =
         num_totals p c t th d"
proof (rule totals_eq)
  note each = ok [unfolded list_all_iff gemini_usage_ok_def]
  have "totalPromptTokenCount
          (foldl (\<lambda>T entry. fst (gemini_add_usage T (entry_usageMetadata (Some entry)))) zero_totals entries) =
        Num (0 + (\<Sum>entry\<leftarrow>entries. count_of (opt_prop ''promptTokenCount'' (entry_usageMetadata (Some entry)))))"
    using each fits(1) p
    by (intro total_fold [where proj = totalPromptTokenCount])
       (simp_all add: gemini_add_usage_fields add_or_zero count_of_nonneg zero_totals_def)
  with p show "totalPromptTokenCount
          (foldl (\<lambda>T entry. fst (gemini_add_usage T (entry_usageMetadata (Some entry)))) zero_totals entries) =
        Num p" by simp
  have "totalCandidatesTokenCount
          (foldl (\<lambda>T entry. fst (gemini_add_usage T (entry_usageMetadata (Some entry)))) zero_totals entries) =
        Num (0 + (\<Sum>entry\<leftarrow>entries. count_of (opt_prop ''candidatesTokenCount'' (entry_usageMetadata (Some entry)))))"
    using each fits(2) c
    by (intro total_fold [where proj = totalCandidatesTokenCount])
       (simp_all add: gemini_add_usage_fields add_or_zero count_of_nonneg zero_totals_def)
  with c show "totalCandidatesTokenCount
          (foldl (\<lambda>T entry. fst (gemini_add_usage T (entry_usageMetadata (Some entry)))) zero_totals entries) =
        Num c" by simp
  have "totalTotalTokenCount
          (foldl (\<lambda>T entry. fst (gemini_add_usage T (entry_usageMetadata (Some entry)))) zero_totals entries) =
        Num (0 + (\<Sum>entry\<leftarrow>entries. count_of (opt_prop ''totalTokenCount'' (entry_usageMetadata (Some entry)))))"
    using each fits(3) t
    by (intro total_fold [where proj = totalTotalTokenCount])
       (simp_all add: gemini_add_usage_fields add_or_zero count_of_nonneg zero_totals_def)
  with t show "totalTotalTokenCount
          (foldl (\<lambda>T entry. fst (gemini_add_usage T (entry_usageMetadata (Some entry)))) zero_totals entries) =
        Num t" by simp
  have "totalThoughtsTokenCount
          (foldl (\<lambda>T entry. fst (gemini_add_usage T (entry_usageMetadata (Some entry)))) zero_totals entries) =
        Num (0 + (\<Sum>entry\<leftarrow>entries. count_of (opt_prop ''thoughtsTokenCount'' (entry_usageMetadata (Some entry)))))"
    using each fits(4) th
    by (intro total_fold [where proj = totalThoughtsTokenCount])
       (simp_all add: gemini_add_usage_fields add_or_zero count_of_nonneg zero_totals_def)
  with th show "totalThoughtsTokenCount
          (foldl (\<lambda>T entry. fst (gemini_add_usage T (entry_usageMetadata (Some entry)))) zero_totals entries) =
        Num th" by simp
  have "totalPromptDetailsTokenCount
          (foldl (\<lambda>T entry. fst (gemini_add_usage T (entry_usageMetadata (Some entry)))) zero_totals entries) =
        Num (0 + (\<Sum>entry\<leftarrow>entries. details_sum (entry_usageMetadata (Some entry))))"
    using ok [unfolded list_all_iff] fits(5) d
    by (intro total_fold [where proj = totalPromptDetailsTokenCount])
       (simp_all add: gemini_add_usage_details details_sum_nonneg zero_totals_def gemini_usage_ok_def)
  with d show "totalPromptDetailsTokenCount
          (foldl (\<lambda>T entry. fst (gemini_add_usage T (entry_usageMetadata (Some entry)))) zero_totals entries) =
        Num d" by simp
qed


lemma sum_map_filter:
  "(\<Sum>x\<leftarrow>xs. case g x of None \<Rightarrow> (0::int) | Some y \<Rightarrow> f y) = (\<Sum>y\<leftarrow>List.map_filter g xs. f y)"
  by (induction xs) (simp_all add: List.map_filter_simps split: option.splits)

lemma map_filter_member: "x \<in> set xs \<Longrightarrow> g x = Some y \<Longrightarrow> y \<in> set (List.map_filter g xs)"
  by (induction xs) (auto simp: List.map_filter_simps split: option.splits)

lemma jsonl_line_step:
  "jsonl_line_usage JSON_parse T line =
     (case line_usage JSON_parse line of None \<Rightarrow> T | Some um \<Rightarrow> fst (jsonl_add_usage T um))"
  by (simp add: jsonl_line_usage_def line_usage_def split: sum.splits)

lemma jsonl_add_usage_fields:
  "totalPromptTokenCount (fst (jsonl_add_usage T um)) =
     js_add (totalPromptTokenCount T)
       (js_or (opt_prop ''promptTokenCount'' um) (or_zero (opt_prop ''prompt_tokens'' um)))"
  "totalCandidatesTokenCount (fst (jsonl_add_usage T um)) =
     js_add (totalCandidatesTokenCount T) (or_zero (opt_prop ''candidatesTokenCount'' um))"
  "totalTotalTokenCount (fst (jsonl_add_usage T um)) =
     js_add (totalTotalTokenCount T)
       (js_or (opt_prop ''totalTokenCount'' um) (or_zero (opt_prop ''total_tokens'' um)))"
  "totalThoughtsTokenCount (fst (jsonl_add_usage T um)) =
     js_add (totalThoughtsTokenCount T)
       (js_or (opt_prop ''thoughtsTokenCount'' um)
          (or_zero (opt_path [''completion_tokens_details'', ''reasoning_tokens''] um)))"
  by (simp_all add: jsonl_add_usage_def add_details_of_others)

lemma jsonl_add_usage_details:
  assumes "details_ok um" "totalPromptDetailsTokenCount T = Num a" "0 \<le> a"
    "exact_total (a + details_sum um)"
  shows "totalPromptDetailsTokenCount (fst (jsonl_add_usage T um)) = Num (a + details_sum um)"
  unfolding jsonl_add_usage_def using assms by (intro add_details_of_ok) simp_all

lemma jsonl_usage_fold:
  assumes ok: "list_all jsonl_usage_ok (List.map_filter (line_usage JSON_parse) ls)"
    and p: "p = (\<Sum>um\<leftarrow>List.map_filter (line_usage JSON_parse) ls.
                   count_either (opt_prop ''promptTokenCount'' um) (opt_prop ''prompt_tokens'' um))"
    and c: "c = (\<Sum>um\<leftarrow>List.map_filter (line_usage JSON_parse) ls.
                   count_of (opt_prop ''candidatesTokenCount'' um))"
    and t: "t = (\<Sum>um\<leftarrow>List.map_filter (line_usage JSON_parse) ls.
                   count_either (opt_prop ''totalTokenCount'' um) (opt_prop ''total_tokens'' um))"
    and th: "th = (\<Sum>um\<leftarrow>List.map_filter (line_usage JSON_parse) ls.
                   count_either (opt_prop ''thoughtsTokenCount'' um)
                     (opt_path [''completion_tokens_details'', ''reasoning_tokens''] um))"
    and d: "d = (\<Sum>um\<leftarrow>List.map_filter (line_usage JSON_parse) ls. details_sum um)"
    and fits: "exact_total p" "exact_total c" "exact_total t" "exact_total th" "exact_total d"
  shows "foldl (jsonl_line_usage JSON_parse) zero_totals ls = num_totals p c t th d"
proof (rule totals_eq)
  have each: "\<And>l um. l \<in> set ls \<Longrightarrow> line_usage JSON_parse l = Some um \<Longrightarrow>
     count_ok (opt_prop ''promptTokenCount'' um) \<and> count_ok (opt_prop ''prompt_tokens'' um) \<and>
     count_ok (opt_prop ''candidatesTokenCount'' um) \<and>
     count_ok (opt_prop ''totalTokenCount'' um) \<and> count_ok (opt_prop ''total_tokens'' um) \<and>
     count_ok (opt_prop ''thoughtsTokenCount'' um) \<and>
     count_ok (opt_path [''completion_tokens_details'', ''reasoning_tokens''] um) \<and>
     details_ok um"
    using ok [unfolded list_all_iff jsonl_usage_ok_def] map_filter_member by fast
  have "totalPromptTokenCount (foldl (jsonl_line_usage JSON_parse) zero_totals ls) =
        Num (0 + (\<Sum>l\<leftarrow>ls. case line_usage JSON_parse l of None \<Rightarrow> 0 | Some um \<Rightarrow> count_either (opt_prop ''promptTokenCount'' um) (opt_prop ''prompt_tokens'' um)))"
    using each fits(1) p
    by (intro total_fold [where proj = totalPromptTokenCount])
       (auto simp: jsonl_line_step jsonl_add_usage_fields add_or_zero add_either count_of_nonneg count_either_nonneg zero_totals_def sum_map_filter
          simp del: opt_path.simps split: option.splits)
  with p show "totalPromptTokenCount (foldl (jsonl_line_usage JSON_parse) zero_totals ls) = Num p"
    by (simp add: sum_map_filter del: opt_path.simps)
  have "totalCandidatesTokenCount (foldl (jsonl_line_usage JSON_parse) zero_totals ls) =
        Num (0 + (\<Sum>l\<leftarrow>ls. case line_usage JSON_parse l of None \<Rightarrow> 0 | Some um \<Rightarrow> count_of (opt_prop ''candidatesTokenCount'' um)))"
    using each fits(2) c
    by (intro total_fold [where proj = totalCandidatesTokenCount])
       (auto simp: jsonl_line_step jsonl_add_usage_fields add_or_zero add_either count_of_nonneg count_either_nonneg zero_totals_def sum_map_filter
          simp del: opt_path.simps split: option.splits)
  with c show "totalCandidatesTokenCount (foldl (jsonl_line_usage JSON_parse) zero_totals ls) = Num c"
    by (simp add: sum_map_filter del: opt_path.simps)
  have "totalTotalTokenCount (foldl (jsonl_line_usage JSON_parse) zero_totals ls) =
        Num (0 + (\<Sum>l\<leftarrow>ls. case line_usage JSON_parse l of None \<Rightarrow> 0 | Some um \<Rightarrow> count_either (opt_prop ''totalTokenCount'' um) (opt_prop ''total_tokens'' um)))"
    using each fits(3) t
    by (intro total_fold [where proj = totalTotalTokenCount])
       (auto simp: jsonl_line_step jsonl_add_usage_fields add_or_zero add_either count_of_nonneg count_either_nonneg zero_totals_def sum_map_filter
          simp del: opt_path.simps split: option.splits)
  with t show "totalTotalTokenCount (foldl (jsonl_line_usage JSON_parse) zero_totals ls) = Num t"
    by (simp add: sum_map_filter del: opt_path.simps)
  have "totalThoughtsTokenCount (foldl (jsonl_line_usage JSON_parse) zero_totals ls) =
        Num (0 + (\<Sum>l\<leftarrow>ls. case line_usage JSON_parse l of None \<Rightarrow> 0 | Some um \<Rightarrow> count_either (opt_prop ''thoughtsTokenCount'' um)
                     (opt_path [''completion_tokens_details'', ''reasoning_tokens''] um)))"
    using each fits(4) th
    by (intro total_fold [where proj = totalThoughtsTokenCount])
       (auto simp: jsonl_line_step jsonl_add_usage_fields add_or_zero add_either count_of_nonneg count_either_nonneg zero_totals_def sum_map_filter
          simp del: opt_path.simps split: option.splits)
  with th show "totalThoughtsTokenCount (foldl (jsonl_line_usage JSON_parse) zero_totals ls) = Num th"
    by (simp add: sum_map_filter del: opt_path.simps)
  have "totalPromptDetailsTokenCount (foldl (jsonl_line_usage JSON_parse) zero_totals ls) =
        Num (0 + (\<Sum>l\<leftarrow>ls. case line_usage JSON_parse l of None \<Rightarrow> 0 | Some um \<Rightarrow> details_sum um))"
    using each fits(5) d
    by (intro total_fold [where proj = totalPromptDetailsTokenCount])
       (auto simp: jsonl_line_step jsonl_add_usage_details details_sum_nonneg zero_totals_def sum_map_filter
          simp del: opt_path.simps split: option.splits)
  with d show "totalPromptDetailsTokenCount (foldl (jsonl_line_usage JSON_parse) zero_totals ls) = Num d"
    by (simp add: sum_map_filter del: opt_path.simps)
qed


lemma claude_line_step:
  "claude_line JSON_stringify JSON_parse (Some ps) (k, m, T) line =
     (case line_result JSON_parse line of
        None \<Rightarrow> (k, m, T)
      | Some r \<Rightarrow> (k + 1, m @ claude_block JSON_stringify ps (k + 1) (projr (JSON_parse line)),
                   claude_add_usage T r))"
  by (simp add: claude_line_def line_result_def split: sum.splits)

lemma claude_totals_eq:
  "input_tokens_total T = Num i \<Longrightarrow> cache_creation_input_tokens_total T = Num cc \<Longrightarrow>
   cache_read_input_tokens_total T = Num cr \<Longrightarrow> output_tokens_total T = Num out \<Longrightarrow>
   T = claude_num_totals i cc cr out"
  by (cases T) (simp add: claude_num_totals_def)

lemma claude_usage_fold:
  assumes ok: "list_all claude_usage_ok (List.map_filter (line_result JSON_parse) ls)"
    and i: "i = (\<Sum>r\<leftarrow>List.map_filter (line_result JSON_parse) ls.
                   count_of (opt_path [''message'', ''usage'', ''input_tokens''] r))"
    and cc: "cc = (\<Sum>r\<leftarrow>List.map_filter (line_result JSON_parse) ls.
                   count_of (opt_path [''message'', ''usage'', ''cache_creation_input_tokens''] r))"
    and cr: "cr = (\<Sum>r\<leftarrow>List.map_filter (line_result JSON_parse) ls.
                   count_of (opt_path [''message'', ''usage'', ''cache_read_input_tokens''] r))"
    and out: "out = (\<Sum>r\<leftarrow>List.map_filter (line_result JSON_parse) ls.
                   count_of (opt_path [''message'', ''usage'', ''output_tokens''] r))"
    and fits: "exact_total i" "exact_total cc" "exact_total cr" "exact_total out"
  shows "snd (snd (foldl (claude_line JSON_stringify JSON_parse (Some ps)) (0, [], zero_claude_totals) ls)) =
         claude_num_totals i cc cr out"
proof (rule claude_totals_eq)
  have each: "\<And>l r. l \<in> set ls \<Longrightarrow> line_result JSON_parse l = Some r \<Longrightarrow>
     is_count (opt_path [''message'', ''usage'', ''input_tokens''] r) \<and>
     is_count (opt_path [''message'', ''usage'', ''cache_creation_input_tokens''] r) \<and>
     is_count (opt_path [''message'', ''usage'', ''cache_read_input_tokens''] r) \<and>
     is_count (opt_path [''message'', ''usage'', ''output_tokens''] r)"
    using ok [unfolded list_all_iff claude_usage_ok_def] map_filter_member by fast
  have "input_tokens_total (snd (snd (foldl (claude_line JSON_stringify JSON_parse (Some ps)) (0, [], zero_claude_totals) ls))) =
        Num (0 + (\<Sum>l\<leftarrow>ls. case line_result JSON_parse l of None \<Rightarrow> 0
                         | Some r \<Rightarrow> count_of (opt_path [''message'', ''usage'', ''input_tokens''] r)))"
    using each fits(1) i
    by (intro total_fold [where proj = "\<lambda>state. input_tokens_total (snd (snd state))"])
       (auto simp: claude_line_step claude_add_usage_def add_count is_count_value zero_claude_totals_def
          sum_map_filter simp del: opt_path.simps split: option.splits)
  with i show "input_tokens_total (snd (snd (foldl (claude_line JSON_stringify JSON_parse (Some ps)) (0, [], zero_claude_totals) ls))) = Num i"
    by (simp add: sum_map_filter del: opt_path.simps)
  have "cache_creation_input_tokens_total (snd (snd (foldl (claude_line JSON_stringify JSON_parse (Some ps)) (0, [], zero_claude_totals) ls))) =
        Num (0 + (\<Sum>l\<leftarrow>ls. case line_result JSON_parse l of None \<Rightarrow> 0
                         | Some r \<Rightarrow> count_of (opt_path [''message'', ''usage'', ''cache_creation_input_tokens''] r)))"
    using each fits(2) cc
    by (intro total_fold [where proj = "\<lambda>state. cache_creation_input_tokens_total (snd (snd state))"])
       (auto simp: claude_line_step claude_add_usage_def add_count is_count_value zero_claude_totals_def
          sum_map_filter simp del: opt_path.simps split: option.splits)
  with cc show "cache_creation_input_tokens_total (snd (snd (foldl (claude_line JSON_stringify JSON_parse (Some ps)) (0, [], zero_claude_totals) ls))) = Num cc"
    by (simp add: sum_map_filter del: opt_path.simps)
  have "cache_read_input_tokens_total (snd (snd (foldl (claude_line JSON_stringify JSON_parse (Some ps)) (0, [], zero_claude_totals) ls))) =
        Num (0 + (\<Sum>l\<leftarrow>ls. case line_result JSON_parse l of None \<Rightarrow> 0
                         | Some r \<Rightarrow> count_of (opt_path [''message'', ''usage'', ''cache_read_input_tokens''] r)))"
    using each fits(3) cr
    by (intro total_fold [where proj = "\<lambda>state. cache_read_input_tokens_total (snd (snd state))"])
       (auto simp: claude_line_step claude_add_usage_def add_count is_count_value zero_claude_totals_def
          sum_map_filter simp del: opt_path.simps split: option.splits)
  with cr show "cache_read_input_tokens_total (snd (snd (foldl (claude_line JSON_stringify JSON_parse (Some ps)) (0, [], zero_claude_totals) ls))) = Num cr"
    by (simp add: sum_map_filter del: opt_path.simps)
  have "output_tokens_total (snd (snd (foldl (claude_line JSON_stringify JSON_parse (Some ps)) (0, [], zero_claude_totals) ls))) =
        Num (0 + (\<Sum>l\<leftarrow>ls. case line_result JSON_parse l of None \<Rightarrow> 0
                         | Some r \<Rightarrow> count_of (opt_path [''message'', ''usage'', ''output_tokens''] r)))"
    using each fits(4) out
    by (intro total_fold [where proj = "\<lambda>state. output_tokens_total (snd (snd state))"])
       (auto simp: claude_line_step claude_add_usage_def add_count is_count_value zero_claude_totals_def
          sum_map_filter simp del: opt_path.simps split: option.splits)
  with out show "output_tokens_total (snd (snd (foldl (claude_line JSON_stringify JSON_parse (Some ps)) (0, [], zero_claude_totals) ls))) = Num out"
    by (simp add: sum_map_filter del: opt_path.simps)
qed


text \<open>
  Claim C3, as amended. For token counts that are not negative and totals below
  \<open>2 ^ 53\<close>, the usage of a completed job is the field-wise sum of the counts of its
  parsed items, a count that is absent being zero, in these cases. For the inline
  responses of a Gemini batch with at least one response: the sums of \<^verbatim>\<open>promptTokenCount\<close>,
  \<^verbatim>\<open>candidatesTokenCount\<close>, \<^verbatim>\<open>totalTokenCount\<close>, \<^verbatim>\<open>thoughtsTokenCount\<close> and of the
  \<^verbatim>\<open>tokenCount\<close>s of \<^verbatim>\<open>promptTokensDetails\<close>; for a single conversation the counts of the
  first response alone. For a results file that arrives as text, over the lines that
  parse, for any number of them: the sums of the prompt, total and thoughts counts, where
  \<^verbatim>\<open>prompt_tokens\<close>, \<^verbatim>\<open>total_tokens\<close> and \<^verbatim>\<open>completion_tokens_details.reasoning_tokens\<close> are
  read when the first name is absent or zero, and of the \<^verbatim>\<open>tokenCount\<close>s; the completion
  total is the sum of \<^verbatim>\<open>candidatesTokenCount\<close> when no line carries \<^verbatim>\<open>completion_tokens\<close>.
  For the results of a Claude batch that arrive as text and whose items all carry the
  four counts \<^verbatim>\<open>input_tokens\<close>, \<^verbatim>\<open>cache_creation_input_tokens\<close>, \<^verbatim>\<open>cache_read_input_tokens\<close>
  and \<^verbatim>\<open>output_tokens\<close>: the sums of these four.
\<close>

theorem usage_totals_are_sums:
  "(\<not> nullish lroInfo \<and> inlinedResponses_of lroInfo = Some (JArr entries) \<and> entries \<noteq> [] \<and>
    list_all (\<lambda>entry. gemini_usage_ok (entry_usageMetadata (Some entry))) entries \<and>
    gp = (\<Sum>entry\<leftarrow>entries. count_of (opt_prop ''promptTokenCount'' (entry_usageMetadata (Some entry)))) \<and>
    gc = (\<Sum>entry\<leftarrow>entries. count_of (opt_prop ''candidatesTokenCount'' (entry_usageMetadata (Some entry)))) \<and>
    gt = (\<Sum>entry\<leftarrow>entries. count_of (opt_prop ''totalTokenCount'' (entry_usageMetadata (Some entry)))) \<and>
    gth = (\<Sum>entry\<leftarrow>entries. count_of (opt_prop ''thoughtsTokenCount'' (entry_usageMetadata (Some entry)))) \<and>
    gd = (\<Sum>entry\<leftarrow>entries. details_sum (entry_usageMetadata (Some entry))) \<and>
    exact_total gp \<and> exact_total gc \<and> exact_total gt \<and> exact_total gth \<and> exact_total gd \<longrightarrow>
      parseGeminiUsageData lroInfo False = Inr (Some (Aggregated (num_totals gp gc gt gth gd)))) \<and>
   (\<not> nullish chat \<and> inlinedResponses_of chat = Some (JArr (first # others)) \<and>
    gemini_usage_ok (entry_usageMetadata (Some first)) \<and>
    exact_total (count_of (opt_prop ''promptTokenCount'' (entry_usageMetadata (Some first)))) \<and>
    exact_total (count_of (opt_prop ''candidatesTokenCount'' (entry_usageMetadata (Some first)))) \<and>
    exact_total (count_of (opt_prop ''totalTokenCount'' (entry_usageMetadata (Some first)))) \<and>
    exact_total (count_of (opt_prop ''thoughtsTokenCount'' (entry_usageMetadata (Some first)))) \<and>
    exact_total (details_sum (entry_usageMetadata (Some first))) \<longrightarrow>
      parseGeminiUsageData chat True =
        Inr (Some (Aggregated (num_totals
          (count_of (opt_prop ''promptTokenCount'' (entry_usageMetadata (Some first))))
          (count_of (opt_prop ''candidatesTokenCount'' (entry_usageMetadata (Some first))))
          (count_of (opt_prop ''totalTokenCount'' (entry_usageMetadata (Some first))))
          (count_of (opt_prop ''thoughtsTokenCount'' (entry_usageMetadata (Some first))))
          (details_sum (entry_usageMetadata (Some first))))))) \<and>
   (usages = List.map_filter (line_usage JSON_parse) (split_str newline (js_trim jsonlString)) \<and>
    list_all jsonl_usage_ok usages \<and>
    jp = (\<Sum>um\<leftarrow>usages. count_either (opt_prop ''promptTokenCount'' um) (opt_prop ''prompt_tokens'' um)) \<and>
    jc = (\<Sum>um\<leftarrow>usages. count_of (opt_prop ''candidatesTokenCount'' um)) \<and>
    jt = (\<Sum>um\<leftarrow>usages. count_either (opt_prop ''totalTokenCount'' um) (opt_prop ''total_tokens'' um)) \<and>
    jth = (\<Sum>um\<leftarrow>usages. count_either (opt_prop ''thoughtsTokenCount'' um)
                            (opt_path [''completion_tokens_details'', ''reasoning_tokens''] um)) \<and>
    jd = (\<Sum>um\<leftarrow>usages. details_sum um) \<and>
    exact_total jp \<and> exact_total jc \<and> exact_total jt \<and> exact_total jth \<and> exact_total jd \<longrightarrow>
      (\<exists>completion.
         parseJsonlUsageData JSON_parse (JStr jsonlString) = Inr (num_totals jp completion jt jth jd) \<and>
         (list_all (\<lambda>um. opt_prop ''completion_tokens'' um = None) usages \<longrightarrow> completion = jc))) \<and>
   (results = List.map_filter (line_result JSON_parse) (claude_lines s) \<and>
    list_all claude_usage_ok results \<and>
    ci = (\<Sum>r\<leftarrow>results. count_of (opt_path [''message'', ''usage'', ''input_tokens''] r)) \<and>
    cc = (\<Sum>r\<leftarrow>results. count_of (opt_path [''message'', ''usage'', ''cache_creation_input_tokens''] r)) \<and>
    cr = (\<Sum>r\<leftarrow>results. count_of (opt_path [''message'', ''usage'', ''cache_read_input_tokens''] r)) \<and>
    co = (\<Sum>r\<leftarrow>results. count_of (opt_path [''message'', ''usage'', ''output_tokens''] r)) \<and>
    exact_total ci \<and> exact_total cc \<and> exact_total cr \<and> exact_total co \<longrightarrow>
      (\<exists>returnMessage.
         claude_results JSON_stringify JSON_parse (Inr (JStr s)) (Some ps) False =
           Inr (returnMessage, claude_num_totals ci cc cr co)))"
proof (intro conjI impI)
  assume a: "\<not> nullish lroInfo \<and> inlinedResponses_of lroInfo = Some (JArr entries) \<and> entries \<noteq> [] \<and>
    list_all (\<lambda>entry. gemini_usage_ok (entry_usageMetadata (Some entry))) entries \<and>
    gp = (\<Sum>entry\<leftarrow>entries. count_of (opt_prop ''promptTokenCount'' (entry_usageMetadata (Some entry)))) \<and>
    gc = (\<Sum>entry\<leftarrow>entries. count_of (opt_prop ''candidatesTokenCount'' (entry_usageMetadata (Some entry)))) \<and>
    gt = (\<Sum>entry\<leftarrow>entries. count_of (opt_prop ''totalTokenCount'' (entry_usageMetadata (Some entry)))) \<and>
    gth = (\<Sum>entry\<leftarrow>entries. count_of (opt_prop ''thoughtsTokenCount'' (entry_usageMetadata (Some entry)))) \<and>
    gd = (\<Sum>entry\<leftarrow>entries. details_sum (entry_usageMetadata (Some entry))) \<and>
    exact_total gp \<and> exact_total gc \<and> exact_total gt \<and> exact_total gth \<and> exact_total gd"
  then have "foldl (\<lambda>T entry. fst (gemini_add_usage T (entry_usageMetadata (Some entry)))) zero_totals entries =
         num_totals gp gc gt gth gd"
    by (elim conjE) (rule gemini_usage_fold, assumption+)
  with a show "parseGeminiUsageData lroInfo False = Inr (Some (Aggregated (num_totals gp gc gt gth gd)))"
    by (simp add: parseGeminiUsageData_def)
next
  assume a: "\<not> nullish chat \<and> inlinedResponses_of chat = Some (JArr (first # others)) \<and>
    gemini_usage_ok (entry_usageMetadata (Some first)) \<and>
    exact_total (count_of (opt_prop ''promptTokenCount'' (entry_usageMetadata (Some first)))) \<and>
    exact_total (count_of (opt_prop ''candidatesTokenCount'' (entry_usageMetadata (Some first)))) \<and>
    exact_total (count_of (opt_prop ''totalTokenCount'' (entry_usageMetadata (Some first)))) \<and>
    exact_total (count_of (opt_prop ''thoughtsTokenCount'' (entry_usageMetadata (Some first)))) \<and>
    exact_total (details_sum (entry_usageMetadata (Some first)))"
  then have "fst (gemini_add_usage zero_totals (entry_usageMetadata (Some first))) =
     num_totals (count_of (opt_prop ''promptTokenCount'' (entry_usageMetadata (Some first))))
        (count_of (opt_prop ''candidatesTokenCount'' (entry_usageMetadata (Some first))))
        (count_of (opt_prop ''totalTokenCount'' (entry_usageMetadata (Some first))))
        (count_of (opt_prop ''thoughtsTokenCount'' (entry_usageMetadata (Some first))))
        (details_sum (entry_usageMetadata (Some first)))"
    by (intro gemini_add_usage_ok) simp_all
  moreover from a have "\<not> snd (gemini_add_usage zero_totals (entry_usageMetadata (Some first)))"
    by (intro gemini_add_usage_threw) simp
  ultimately show "parseGeminiUsageData chat True =
        Inr (Some (Aggregated (num_totals
          (count_of (opt_prop ''promptTokenCount'' (entry_usageMetadata (Some first))))
          (count_of (opt_prop ''candidatesTokenCount'' (entry_usageMetadata (Some first))))
          (count_of (opt_prop ''totalTokenCount'' (entry_usageMetadata (Some first))))
          (count_of (opt_prop ''thoughtsTokenCount'' (entry_usageMetadata (Some first))))
          (details_sum (entry_usageMetadata (Some first))))))"
    using a by (cases "gemini_add_usage zero_totals (entry_usageMetadata (Some first))")
      (simp add: parseGeminiUsageData_def)
next
  assume a: "usages = List.map_filter (line_usage JSON_parse) (split_str newline (js_trim jsonlString)) \<and>
    list_all jsonl_usage_ok usages \<and>
    jp = (\<Sum>um\<leftarrow>usages. count_either (opt_prop ''promptTokenCount'' um) (opt_prop ''prompt_tokens'' um)) \<and>
    jc = (\<Sum>um\<leftarrow>usages. count_of (opt_prop ''candidatesTokenCount'' um)) \<and>
    jt = (\<Sum>um\<leftarrow>usages. count_either (opt_prop ''totalTokenCount'' um) (opt_prop ''total_tokens'' um)) \<and>
    jth = (\<Sum>um\<leftarrow>usages. count_either (opt_prop ''thoughtsTokenCount'' um)
                            (opt_path [''completion_tokens_details'', ''reasoning_tokens''] um)) \<and>
    jd = (\<Sum>um\<leftarrow>usages. details_sum um) \<and>
    exact_total jp \<and> exact_total jc \<and> exact_total jt \<and> exact_total jth \<and> exact_total jd"
  then have "foldl (jsonl_line_usage JSON_parse) zero_totals (split_str newline (js_trim jsonlString)) =
      num_totals jp jc jt jth jd"
    by (elim conjE) (rule jsonl_usage_fold; simp del: opt_path.simps)
  then have "parseJsonlUsageData JSON_parse (JStr jsonlString) = Inr (num_totals jp jc jt jth jd)"
    by (simp add: parseJsonlUsageData_def)
  then show "(\<exists>completion.
         parseJsonlUsageData JSON_parse (JStr jsonlString) = Inr (num_totals jp completion jt jth jd) \<and>
         (list_all (\<lambda>um. opt_prop ''completion_tokens'' um = None) usages \<longrightarrow> completion = jc))"
    by blast
next
  assume a: "results = List.map_filter (line_result JSON_parse) (claude_lines s) \<and>
    list_all claude_usage_ok results \<and>
    ci = (\<Sum>r\<leftarrow>results. count_of (opt_path [''message'', ''usage'', ''input_tokens''] r)) \<and>
    cc = (\<Sum>r\<leftarrow>results. count_of (opt_path [''message'', ''usage'', ''cache_creation_input_tokens''] r)) \<and>
    cr = (\<Sum>r\<leftarrow>results. count_of (opt_path [''message'', ''usage'', ''cache_read_input_tokens''] r)) \<and>
    co = (\<Sum>r\<leftarrow>results. count_of (opt_path [''message'', ''usage'', ''output_tokens''] r)) \<and>
    exact_total ci \<and> exact_total cc \<and> exact_total cr \<and> exact_total co"
  then have "snd (snd (foldl (claude_line JSON_stringify JSON_parse (Some ps)) (0, [], zero_claude_totals)
                  (claude_lines s))) = claude_num_totals ci cc cr co"
    by (elim conjE) (rule claude_usage_fold; simp del: opt_path.simps)
  then show "(\<exists>returnMessage.
         claude_results JSON_stringify JSON_parse (Inr (JStr s)) (Some ps) False =
           Inr (returnMessage, claude_num_totals ci cc cr co))"
    by (cases "foldl (claude_line JSON_stringify JSON_parse (Some ps)) (0, [], zero_claude_totals) (claude_lines s)")
       (simp add: claude_results_def)
qed


lemma jsonl_lines_join:
  assumes "ls \<noteq> []" "\<forall>l \<in> set ls. l \<noteq> [] \<and> CHR 0x0A \<notin> set l"
    "\<not> is_ws (hd (hd ls))" "\<not> is_ws (last (last ls))"
  shows "split_str newline (js_trim (js_join newline ls)) = ls"
proof -
  from assms(1,2) have n: "hd ls \<noteq> []" "last ls \<noteq> []" by simp_all
  with assms have "js_trim (js_join newline ls @ []) = js_join newline ls"
    by (intro trim_body) (simp_all add: js_join_hd js_join_last js_join_not_empty)
  with assms(1,2) show ?thesis by (simp add: split_join_newline)
qed

lemma sample_usage_texts:
  "json_text sample_openai_line \<noteq> []" "CHR 0x0A \<notin> set (json_text sample_openai_line)"
  "\<not> is_ws (hd (json_text sample_openai_line))" "\<not> is_ws (last (json_text sample_openai_line))"
  "json_text sample_errored_line \<noteq> []" "CHR 0x0A \<notin> set (json_text sample_errored_line)"
  "\<not> is_ws (last (json_text sample_errored_line))"
  "\<not> is_ws (hd (json_text sample_errored_line))"
  "json_text (usage_item sample_usage1) \<noteq> []" "CHR 0x0A \<notin> set (json_text (usage_item sample_usage1))"
  "\<not> is_ws (hd (json_text (usage_item sample_usage1)))"
  "json_text (usage_item sample_usage2) \<noteq> []" "CHR 0x0A \<notin> set (json_text (usage_item sample_usage2))"
  "\<not> is_ws (last (json_text (usage_item sample_usage2)))"
  by (simp_all add: sample_openai_line_def sample_errored_line_def usage_item_def sample_usage1_def
      sample_usage2_def json_quote_def escape_char_def show_int_def digit_char_def is_ws_def)

lemma sample_usage_parse:
  "usage_parse (json_text sample_openai_line) = Inr sample_openai_line"
  "usage_parse (json_text sample_errored_line) = Inr sample_errored_line"
  "usage_parse (json_text (usage_item sample_usage1)) = Inr (usage_item sample_usage1)"
  "usage_parse (json_text (usage_item sample_usage2)) = Inr (usage_item sample_usage2)"
  "usage_parse ''{}'' = Inr (JObj [])"
  "usage_parse ''oops'' = Inl ''Unexpected token''"
  "usage_parse sample_line1 = Inr (succeeded_line ''request-1'' ''one'')"
  "usage_parse sample_line2 = Inr (succeeded_line ''request-2'' ''two'')"
  by (simp_all add: usage_parse_def sample_parse_def sample_line1_def sample_line2_def
      succeeded_line_def sample_openai_line_def sample_errored_line_def usage_item_def
      sample_usage1_def sample_usage2_def json_quote_def escape_char_def show_int_def digit_char_def)

lemma sample_file_lines:
  "split_str newline (js_trim (js_join newline
       [json_text (usage_item sample_usage1), ''{}'', ''oops'', json_text (usage_item sample_usage2)])) =
     [json_text (usage_item sample_usage1), ''{}'', ''oops'', json_text (usage_item sample_usage2)]"
  "split_str newline (js_trim (js_join newline
       [json_text sample_openai_line, json_text sample_openai_line])) =
     [json_text sample_openai_line, json_text sample_openai_line]"
  by (rule jsonl_lines_join; simp add: sample_usage_texts)+

lemma sample_file_usage:
  "List.map_filter (line_usage usage_parse)
       [json_text (usage_item sample_usage1), ''{}'', ''oops'', json_text (usage_item sample_usage2)] =
     [Some sample_usage1, None, Some sample_usage2]"
  "List.map_filter (line_usage usage_parse) [json_text sample_openai_line, json_text sample_openai_line] =
     [opt_path [''response'', ''body'', ''usage''] (Some sample_openai_line),
      opt_path [''response'', ''body'', ''usage''] (Some sample_openai_line)]"
  by (simp_all add: List.map_filter_simps line_usage_def sample_usage_parse sample_usage_texts)
     (simp_all add: js_or_def sample_openai_line_def usage_item_def sample_usage1_def sample_usage2_def)

lemma sample_usage_items:
  "entry_usageMetadata (Some (usage_item sample_usage1)) = Some sample_usage1"
  "entry_usageMetadata (Some (usage_item sample_usage2)) = Some sample_usage2"
  by (simp_all add: entry_usageMetadata_def usage_item_def js_or_def sample_usage1_def sample_usage2_def)

lemma sample_usage_ok:
  "gemini_usage_ok (Some sample_usage1)" "gemini_usage_ok (Some sample_usage2)"
  "jsonl_usage_ok (Some sample_usage1)" "jsonl_usage_ok (Some sample_usage2)" "jsonl_usage_ok None"
  "jsonl_usage_ok (opt_path [''response'', ''body'', ''usage''] (Some sample_openai_line))"
  "opt_prop ''completion_tokens'' (Some sample_usage1) = None"
  "opt_prop ''completion_tokens'' (Some sample_usage2) = None"
  "opt_prop ''completion_tokens'' None = None"
  by (simp_all add: gemini_usage_ok_def jsonl_usage_ok_def count_ok_def details_ok_def sample_usage1_def
      sample_usage2_def sample_openai_line_def)

lemma sample_usage_counts:
  "count_of (opt_prop ''promptTokenCount'' (Some sample_usage1)) = 3"
  "count_of (opt_prop ''candidatesTokenCount'' (Some sample_usage1)) = 4"
  "count_of (opt_prop ''totalTokenCount'' (Some sample_usage1)) = 7"
  "count_of (opt_prop ''thoughtsTokenCount'' (Some sample_usage1)) = 0"
  "details_sum (Some sample_usage1) = 0"
  "count_of (opt_prop ''promptTokenCount'' (Some sample_usage2)) = 5"
  "count_of (opt_prop ''candidatesTokenCount'' (Some sample_usage2)) = 0"
  "count_of (opt_prop ''totalTokenCount'' (Some sample_usage2)) = 7"
  "count_of (opt_prop ''thoughtsTokenCount'' (Some sample_usage2)) = 2"
  "details_sum (Some sample_usage2) = 5"
  "count_either (opt_prop ''promptTokenCount'' (Some sample_usage1)) (opt_prop ''prompt_tokens'' (Some sample_usage1)) = 3"
  "count_either (opt_prop ''totalTokenCount'' (Some sample_usage1)) (opt_prop ''total_tokens'' (Some sample_usage1)) = 7"
  "count_either (opt_prop ''thoughtsTokenCount'' (Some sample_usage1))
     (opt_path [''completion_tokens_details'', ''reasoning_tokens''] (Some sample_usage1)) = 0"
  "count_either (opt_prop ''promptTokenCount'' (Some sample_usage2)) (opt_prop ''prompt_tokens'' (Some sample_usage2)) = 5"
  "count_either (opt_prop ''totalTokenCount'' (Some sample_usage2)) (opt_prop ''total_tokens'' (Some sample_usage2)) = 7"
  "count_either (opt_prop ''thoughtsTokenCount'' (Some sample_usage2))
     (opt_path [''completion_tokens_details'', ''reasoning_tokens''] (Some sample_usage2)) = 2"
  "count_either (opt_prop ''promptTokenCount'' None) (opt_prop ''prompt_tokens'' None) = 0"
  "count_either (opt_prop ''totalTokenCount'' None) (opt_prop ''total_tokens'' None) = 0"
  "count_either (opt_prop ''thoughtsTokenCount'' None)
     (opt_path [''completion_tokens_details'', ''reasoning_tokens''] None) = 0"
  "count_of (opt_prop ''candidatesTokenCount'' None) = 0" "details_sum None = 0"
  by (simp_all add: count_of_def count_either_def details_sum_def sample_usage1_def sample_usage2_def)

lemma sample_openai_usage:
  "count_either (opt_prop ''promptTokenCount'' (opt_path [''response'', ''body'', ''usage''] (Some sample_openai_line)))
     (opt_prop ''prompt_tokens'' (opt_path [''response'', ''body'', ''usage''] (Some sample_openai_line))) = 7"
  "count_of (opt_prop ''candidatesTokenCount'' (opt_path [''response'', ''body'', ''usage''] (Some sample_openai_line))) = 0"
  "count_either (opt_prop ''totalTokenCount'' (opt_path [''response'', ''body'', ''usage''] (Some sample_openai_line)))
     (opt_prop ''total_tokens'' (opt_path [''response'', ''body'', ''usage''] (Some sample_openai_line))) = 10"
  "count_either (opt_prop ''thoughtsTokenCount'' (opt_path [''response'', ''body'', ''usage''] (Some sample_openai_line)))
     (opt_path [''completion_tokens_details'', ''reasoning_tokens'']
        (opt_path [''response'', ''body'', ''usage''] (Some sample_openai_line))) = 1"
  "details_sum (opt_path [''response'', ''body'', ''usage''] (Some sample_openai_line)) = 0"
  by (simp_all add: count_either_def count_of_def details_sum_def sample_openai_line_def)

lemma sample_line_results:
  "List.map_filter (line_result usage_parse) [sample_line1, sample_line2] =
     [opt_prop ''result'' (Some (succeeded_line ''request-1'' ''one'')),
      opt_prop ''result'' (Some (succeeded_line ''request-2'' ''two''))]"
  by (simp add: List.map_filter_simps line_result_def sample_usage_parse)
     (simp add: succeeded_line_def)

lemma sample_claude_usage:
  "claude_usage_ok (opt_prop ''result'' (Some (succeeded_line k answer)))"
  "count_of (opt_path [''message'', ''usage'', ''input_tokens''] (opt_prop ''result'' (Some (succeeded_line k answer)))) = 10"
  "count_of (opt_path [''message'', ''usage'', ''cache_creation_input_tokens''] (opt_prop ''result'' (Some (succeeded_line k answer)))) = 0"
  "count_of (opt_path [''message'', ''usage'', ''cache_read_input_tokens''] (opt_prop ''result'' (Some (succeeded_line k answer)))) = 0"
  "count_of (opt_path [''message'', ''usage'', ''output_tokens''] (opt_prop ''result'' (Some (succeeded_line k answer)))) = 5"
  by (simp_all add: claude_usage_ok_def is_count_def count_of_def succeeded_line_def)

lemma sample_exact: "exact_total 0" "exact_total 1" "exact_total 2" "exact_total 3" "exact_total 4"
  "exact_total 5" "exact_total 7" "exact_total 8" "exact_total 10" "exact_total 14" "exact_total 20"
  by (simp_all add: exact_total_def)

text \<open>
  Two inline responses, the second without \<^verbatim>\<open>candidatesTokenCount\<close>; the same two as
  lines of a results file, with a line without usage and a line that does not parse
  between them; two lines of an OpenAI batch; two Claude results of 10 input and 5
  output tokens each.
\<close>

theorem usage_totals_are_sums_witness:
  "parseGeminiUsageData (Some (inline_lro [usage_item sample_usage1, usage_item sample_usage2])) False =
     Inr (Some (Aggregated (num_totals 8 4 14 2 5))) \<and>
   parseGeminiUsageData (Some (inline_lro [usage_item sample_usage1, usage_item sample_usage2])) True =
     Inr (Some (Aggregated (num_totals 3 4 7 0 0))) \<and>
   parseJsonlUsageData usage_parse (JStr (js_join newline
       [json_text (usage_item sample_usage1), ''{}'', ''oops'', json_text (usage_item sample_usage2)])) =
     Inr (num_totals 8 4 14 2 5) \<and>
   (\<exists>completion. parseJsonlUsageData usage_parse (JStr (js_join newline
       [json_text sample_openai_line, json_text sample_openai_line])) =
     Inr (num_totals 14 completion 20 2 0)) \<and>
   (\<exists>returnMessage.
      claude_results json_text usage_parse (Inr (JStr (js_join newline [sample_line1, sample_line2])))
        (Some [''a'', ''b'']) False = Inr (returnMessage, claude_num_totals 20 0 0 10))"
proof -
  note t = usage_totals_are_sums [where lroInfo = "Some (inline_lro [usage_item sample_usage1, usage_item sample_usage2])"
      and entries = "[usage_item sample_usage1, usage_item sample_usage2]"
      and gp = 8 and gc = 4 and gt = 14 and gth = 2 and gd = 5
      and chat = "Some (inline_lro [usage_item sample_usage1, usage_item sample_usage2])"
      and first = "usage_item sample_usage1" and others = "[usage_item sample_usage2]"
      and JSON_parse = usage_parse
      and jsonlString = "js_join newline
        [json_text (usage_item sample_usage1), ''{}'', ''oops'', json_text (usage_item sample_usage2)]"
      and usages = "[Some sample_usage1, None, Some sample_usage2]"
      and jp = 8 and jc = 4 and jt = 14 and jth = 2 and jd = 5
      and s = "js_join newline [sample_line1, sample_line2]"
      and results = "[opt_prop ''result'' (Some (succeeded_line ''request-1'' ''one'')),
                      opt_prop ''result'' (Some (succeeded_line ''request-2'' ''two''))]"
      and ci = 20 and cc = 0 and cr = 0 and co = 10
      and JSON_stringify = json_text and ps = "[''a'', ''b'']"]
  note t2 = usage_totals_are_sums [where JSON_parse = usage_parse
      and jsonlString = "js_join newline [json_text sample_openai_line, json_text sample_openai_line]"
      and usages = "[opt_path [''response'', ''body'', ''usage''] (Some sample_openai_line),
                     opt_path [''response'', ''body'', ''usage''] (Some sample_openai_line)]"
      and jp = 14 and jc = 0 and jt = 20 and jth = 2 and jd = 0]
  have l: "claude_lines (js_join newline [sample_line1, sample_line2]) = [sample_line1, sample_line2]"
    by (rule sample_claude_lines)
  from t have a: "parseGeminiUsageData (Some (inline_lro [usage_item sample_usage1, usage_item sample_usage2])) False =
     Inr (Some (Aggregated (num_totals 8 4 14 2 5))) \<and>
   parseGeminiUsageData (Some (inline_lro [usage_item sample_usage1, usage_item sample_usage2])) True =
     Inr (Some (Aggregated (num_totals 3 4 7 0 0))) \<and>
   parseJsonlUsageData usage_parse (JStr (js_join newline
       [json_text (usage_item sample_usage1), ''{}'', ''oops'', json_text (usage_item sample_usage2)])) =
     Inr (num_totals 8 4 14 2 5) \<and>
   (\<exists>returnMessage.
      claude_results json_text usage_parse (Inr (JStr (js_join newline [sample_line1, sample_line2])))
        (Some [''a'', ''b'']) False = Inr (returnMessage, claude_num_totals 20 0 0 10))"
    by (simp only: sample_inline_lro sample_usage_items sample_usage_ok sample_usage_counts
        sample_file_lines sample_file_usage l sample_line_results sample_claude_usage sample_exact
        list.pred_inject simp_thms list.map sum_list.Cons sum_list.Nil list.distinct not_False_eq_True)
       simp
  from t2 have b: "(\<exists>completion. parseJsonlUsageData usage_parse (JStr (js_join newline
       [json_text sample_openai_line, json_text sample_openai_line])) =
     Inr (num_totals 14 completion 20 2 0))"
    by (simp only: sample_file_lines sample_file_usage sample_usage_ok sample_openai_usage sample_exact
        list.pred_inject simp_thms list.map sum_list.Cons sum_list.Nil list.distinct not_False_eq_True)
       (simp del: js_join.simps opt_path.simps, blast)
  from a b show ?thesis by simp
qed

lemma sample_errored_item:
  "claude_lines (js_join newline [sample_line1, json_text sample_errored_line]) =
     [sample_line1, json_text sample_errored_line]"
  unfolding claude_lines_def
  by (simp only: split_join_newline sample_lines_plain sample_usage_texts trim_not_empty list.set ball_simps
      filter.simps simp_thms if_True list.distinct insert_iff empty_iff)

text \<open>
  Claim C3 as stated fails for a Gemini batch with no inline response, where the usage
  is a message and not a sum, and for a Claude batch with an errored item, which has no
  usage: the four totals are \<^verbatim>\<open>NaN\<close>.
\<close>

theorem usage_totals_are_sums_counterexample:
  "parseGeminiUsageData (Some (inline_lro [])) False =
     Inr (Some (UsageText ''Gemini batch job SUCCEEDED, but no inline responses found.'')) \<and>
   snd (projr (claude_results json_text usage_parse
     (Inr (JStr (js_join newline [sample_line1, json_text sample_errored_line])))
     (Some [''a'', ''b'']) False)) =
     \<lparr>input_tokens_total = NaN, cache_creation_input_tokens_total = NaN,
      cache_read_input_tokens_total = NaN, output_tokens_total = NaN\<rparr>"
proof -
  have a: "parseGeminiUsageData (Some (inline_lro [])) False =
     Inr (Some (UsageText ''Gemini batch job SUCCEEDED, but no inline responses found.''))"
    by (simp add: parseGeminiUsageData_def sample_inline_lro)
  show ?thesis
    by (simp add: a claude_results_def sample_errored_item del: js_join.simps)
       (simp add: claude_line_def sample_usage_parse,
        simp add: succeeded_line_def sample_errored_line_def claude_add_usage_def zero_claude_totals_def
          double_sum_exact)
qed

end
